theory Spec2Isabelle
  imports Main "HOL-Library.AList" "HOL-Library.Sublist"
begin

section \<open>Python values, exceptions and attribute trees\<close>

text \<open>
  The test framework of \<^verbatim>\<open>contrib/nydus-test/framework/rafs.py\<close> drives the
  image builder and the nydusd daemon. Exceptions are values of \<open>error\<close>; a function
  that may raise returns \<open>error + 'a\<close>, with \<open>Inl\<close> for the exception raised.
  \<open>PytestFail msg\<close> is the exception of \<^verbatim>\<open>pytest.fail(msg)\<close>.
\<close>

datatype error =
    AttributeError
  | TypeError
  | KeyError
  | IndexError
  | JSONDecodeError
  | AssertionError
  | FileNotFoundError
  | PytestFail string

text \<open>
  The configuration is a tree of \<^verbatim>\<open>types.SimpleNamespace\<close> objects built by
  \<^verbatim>\<open>json.loads(..., object_hook=lambda d: Namespace(**d))\<close>; the builder's output is a
  JSON document. Both are values of \<open>json\<close>. An object keeps its attributes in insertion
  order, as a Python \<^verbatim>\<open>dict\<close> does, so it is an association list. \<open>JNull\<close> is
  \<^verbatim>\<open>None\<close>. In the configuration tree a \<open>JObj\<close> is a namespace; the values handed to
  the setters are scalars, lists or namespaces, and a Python \<^verbatim>\<open>dict\<close> argument, which has
  no attributes to read or assign, has no counterpart there.
\<close>

datatype json =
    JNull
  | JBool bool
  | JInt int
  | JStr string
  | JArr "json list"
  | JObj "(string \<times> json) list"

text \<open>Attribute read \<^verbatim>\<open>obj.k\<close> and attribute assignment \<^verbatim>\<open>obj.k = v\<close>. An assignment
  to an attribute that exists keeps its position; a new attribute goes last.\<close>

fun getattr :: "json \<Rightarrow> string \<Rightarrow> error + json" where
  "getattr (JObj kvs) k = (case map_of kvs k of None \<Rightarrow> Inl AttributeError | Some v \<Rightarrow> Inr v)"
| "getattr _ k = Inl AttributeError"

fun setattr :: "json \<Rightarrow> string \<Rightarrow> json \<Rightarrow> error + json" where
  "setattr (JObj kvs) k v = Inr (JObj (AList.update k v kvs))"
| "setattr _ k v = Inl AttributeError"

text \<open>
  \<^verbatim>\<open>exec("self._device_conf." + k + "=v")\<close> for a dotted path \<open>k\<close>, given as the list
  of its names: every name but the last is read, the last one is assigned. The source
  mutates the inner namespace in place; here the updated child is stored back under the
  name it was read from.
\<close>

fun set_path :: "string list \<Rightarrow> json \<Rightarrow> json \<Rightarrow> error + json" where
  "set_path [] v obj = Inr v"
| "set_path [k] v obj = setattr obj k v"
| "set_path (k # ks) v obj =
     (case getattr obj k of
        Inl e \<Rightarrow> Inl e
      | Inr child \<Rightarrow>
          (case set_path ks v child of
             Inl e \<Rightarrow> Inl e
           | Inr child' \<Rightarrow> setattr obj k child'))"

text \<open>Reading a dotted path, \<^verbatim>\<open>obj.a.b.c\<close>.\<close>

fun get_path :: "string list \<Rightarrow> json \<Rightarrow> error + json" where
  "get_path [] obj = Inr obj"
| "get_path (k # ks) obj =
     (case getattr obj k of Inl e \<Rightarrow> Inl e | Inr child \<Rightarrow> get_path ks child)"

subsection \<open>\<^verbatim>\<open>json.dump\<close>\<close>

text \<open>
  \<^verbatim>\<open>json.dump\<close> with its default arguments: separators \<^verbatim>\<open>", "\<close> and \<^verbatim>\<open>": "\<close>,
  \<^verbatim>\<open>ensure_ascii=True\<close>, keys in the order of the dictionary. Characters are taken as
  code points below 256; floats do not occur in the configuration.
\<close>

definition digit_char :: "nat \<Rightarrow> char" where
  "digit_char n = ''0123456789abcdef'' ! n"

fun str_nat :: "nat \<Rightarrow> string" where
  "str_nat n = (if n < 10 then [digit_char n] else str_nat (n div 10) @ [digit_char (n mod 10)])"

declare str_nat.simps [simp del]

definition str_int :: "int \<Rightarrow> string" where
  "str_int i = (if i < 0 then CHR ''-'' # str_nat (nat (- i)) else str_nat (nat i))"

definition escape_char :: "char \<Rightarrow> string" where
  "escape_char c =
     (if c = CHR 0x22 then [CHR 0x5C, CHR 0x22]
      else if c = CHR 0x5C then [CHR 0x5C, CHR 0x5C]
      else if c = CHR 0x0A then [CHR 0x5C, CHR ''n'']
      else if c = CHR 0x0D then [CHR 0x5C, CHR ''r'']
      else if c = CHR 0x09 then [CHR 0x5C, CHR ''t'']
      else if c = CHR 0x08 then [CHR 0x5C, CHR ''b'']
      else if c = CHR 0x0C then [CHR 0x5C, CHR ''f'']
      else if (of_char c :: nat) < 32 \<or> 126 < (of_char c :: nat)
        then [CHR 0x5C, CHR ''u'', CHR ''0'', CHR ''0'',
              digit_char ((of_char c :: nat) div 16), digit_char ((of_char c :: nat) mod 16)]
      else [c])"

definition py_encode_basestring_ascii :: "string \<Rightarrow> string" where
  "py_encode_basestring_ascii s = CHR 0x22 # concat (map escape_char s) @ [CHR 0x22]"

fun join_with :: "string \<Rightarrow> string list \<Rightarrow> string" where
  "join_with sep [] = []"
| "join_with sep [x] = x"
| "join_with sep (x # y # ys) = x @ sep @ join_with sep (y # ys)"

fun json_dumps :: "json \<Rightarrow> string" where
  "json_dumps JNull = ''null''"
| "json_dumps (JBool b) = (if b then ''true'' else ''false'')"
| "json_dumps (JInt i) = str_int i"
| "json_dumps (JStr s) = py_encode_basestring_ascii s"
| "json_dumps (JArr xs) = ''['' @ join_with '', '' (map json_dumps xs) @ '']''"
| "json_dumps (JObj kvs) =
     ''{'' @ join_with '', ''
              (map (\<lambda>kv. py_encode_basestring_ascii (fst kv) @ '': '' @ json_dumps (snd kv)) kvs)
       @ ''}''"

subsection \<open>The temporary file behind the configuration\<close>

text \<open>
  \<^verbatim>\<open>tempfile.NamedTemporaryFile(mode="w+")\<close>: its text and the position of the next
  write. A write replaces what lies under it and extends the file where it runs past
  the end.
\<close>

record text_file =
  content :: string
  pos :: nat

definition file_truncate :: "nat \<Rightarrow> text_file \<Rightarrow> text_file" where
  "file_truncate n f = f\<lparr>content := take n (content f)\<rparr>"

definition file_seek :: "nat \<Rightarrow> text_file \<Rightarrow> text_file" where
  "file_seek n f = f\<lparr>pos := n\<rparr>"

definition file_write :: "string \<Rightarrow> text_file \<Rightarrow> text_file" where
  "file_write s f =
     f\<lparr>content := take (pos f) (content f) @ replicate (pos f - length (content f)) (CHR 0x00)
                    @ s @ drop (pos f + length s) (content f),
       pos := pos f + length s\<rparr>"

section \<open>The anchor\<close>

text \<open>
  \<^verbatim>\<open>NydusAnchor\<close> (module \<^verbatim>\<open>nydus_anchor\<close>) holds the directories, URLs and credentials
  of a test run; every object of \<^verbatim>\<open>rafs.py\<close> keeps a reference to the same anchor in
  \<^verbatim>\<open>self.anchor\<close>, and none of them assigns to the fields below, so the anchor is an
  argument of each function here. The fields are kept as the Python values they are
  (\<open>JNull\<close> for \<^verbatim>\<open>None\<close>); \<open>fs_version\<close> is the value of \<^verbatim>\<open>int(anchor.fs_version)\<close>.
\<close>

record NydusAnchor =
  registry_namespace :: json
  registry_url :: json
  registry_auth :: json
  oss_endpoint :: json
  oss_ak_id :: json
  oss_ak_secret :: json
  oss_bucket :: json
  backend_proxy_url :: json
  localfs_workdir :: json
  blobcache_dir :: json
  backend_proxy_blobs_dir :: json
  fs_version :: int

datatype Backend = OSS | REGISTRY | LOCALFS | BACKEND_PROXY

fun Backend_str :: "Backend \<Rightarrow> string" where
  "Backend_str OSS = ''oss''"
| "Backend_str REGISTRY = ''registry''"
| "Backend_str LOCALFS = ''localfs''"
| "Backend_str BACKEND_PROXY = ''backend_proxy''"

text \<open>Statements in sequence: the first exception ends the run.\<close>

fun seq :: "('s \<Rightarrow> error + 's) list \<Rightarrow> 's \<Rightarrow> error + 's" where
  "seq [] s = Inr s"
| "seq (f # fs) s = (case f s of Inl e \<Rightarrow> Inl e | Inr s' \<Rightarrow> seq fs s')"

definition py_if :: "bool \<Rightarrow> ('s \<Rightarrow> error + 's) list \<Rightarrow> 's \<Rightarrow> error + 's" where
  "py_if b fs s = (if b then seq fs s else Inr s)"

text \<open>\<^verbatim>\<open>posixpath.join(a, b)\<close>, which is \<^verbatim>\<open>os.path.join\<close> on Linux; an argument that is
  not a string is a \<^verbatim>\<open>TypeError\<close>.\<close>

definition posixpath_join :: "string \<Rightarrow> string \<Rightarrow> string" where
  "posixpath_join a b =
     (if b \<noteq> [] \<and> hd b = CHR ''/'' then b
      else if a = [] \<or> last a = CHR ''/'' then a @ b
      else a @ ''/'' @ b)"

fun py_path_join :: "json \<Rightarrow> json \<Rightarrow> error + string" where
  "py_path_join (JStr a) (JStr b) = Inr (posixpath_join a b)"
| "py_path_join _ _ = Inl TypeError"

section \<open>The image object: its attributes\<close>

text \<open>
  The attributes of a \<^verbatim>\<open>RafsImage\<close> that the functions below read or assign. An
  attribute that \<^verbatim>\<open>__init__\<close> does not create is an \<open>option\<close>: \<open>None\<close> while the object
  has no such attribute (\<^verbatim>\<open>hasattr\<close> is false and a read raises
  \<^verbatim>\<open>AttributeError\<close>). \<open>oss_helper\<close> holds the object-key prefix given to
  \<^verbatim>\<open>OssHelper\<close>; it and \<open>backend_type\<close> are what \<^verbatim>\<open>set_backend\<close> has assigned, if it
  was called. The command line (\<^verbatim>\<open>set_param\<close>, \<^verbatim>\<open>set_flags\<close>, \<^verbatim>\<open>opts\<close>, inherited
  from \<^verbatim>\<open>LinuxCommand\<close>) only decides the text handed to \<^verbatim>\<open>utils.run\<close> and is left out.
\<close>

record RafsImage =
  bootstrap_name :: string
  blob_abs_path :: string
  blob_id :: json
  test_dir :: string
  created :: bool
  clear_from_oss :: bool
  oss_uploader :: "string option"
  backend_type :: "Backend option"
  oss_helper :: "json option"
  bootstrap_path :: "string option"
  oss_blob_abs_path :: "string option"
  localfs_backing_blob :: "string option"
  parent_blob :: "string option"
  parent_bootstrap :: "string option"

section \<open>\<^verbatim>\<open>RafsConf\<close>: the daemon's configuration\<close>

text \<open>
  \<open>conf_file_wrapper\<close> is the temporary file, \<open>ns_device_conf\<close> the namespace tree
  \<^verbatim>\<open>self._device_conf\<close>, \<open>device_conf\<close> the dictionary \<^verbatim>\<open>self.device_conf\<close> made from it
  by \<^verbatim>\<open>utils.object_to_dict(copy.deepcopy(...))\<close> (namespaces and dictionaries are both
  \<open>JObj\<close>, so the conversion is the identity here), \<open>rafs_conf_default_mode\<close> the entry
  \<^verbatim>\<open>self._rafs_conf_default["mode"]\<close>. \<open>logged\<close> collects the calls of
  \<^verbatim>\<open>logging.warning\<close> and \<^verbatim>\<open>logging.info\<close> made by \<^verbatim>\<open>dump_rafs_conf\<close>: level, message, arguments.
\<close>

record RafsConf =
  conf_file_wrapper :: text_file
  ns_device_conf :: json
  device_conf :: json
  rafs_conf_default_mode :: string
  logged :: "(string \<times> string \<times> json list) list"

text \<open>\<^verbatim>\<open>__init__\<close>; \<open>preferred_mode\<close> is \<^verbatim>\<open>os.getenv("PREFERRED_MODE", "direct")\<close>.\<close>

definition rafs_conf_default :: "string \<Rightarrow> json" where
  "rafs_conf_default preferred_mode =
     JObj [(''device'', JObj [(''backend'', JObj [(''type'', JStr ''oss''), (''config'', JObj [])])]),
           (''mode'', JStr preferred_mode),
           (''iostats_files'', JBool False),
           (''fs_prefetch'', JObj [(''enable'', JBool False)])]"

definition RafsConf_init :: "string \<Rightarrow> RafsConf" where
  "RafsConf_init preferred_mode =
     \<lparr>conf_file_wrapper = \<lparr>content = [], pos = 0\<rparr>,
      ns_device_conf = rafs_conf_default preferred_mode,
      device_conf = rafs_conf_default preferred_mode,
      rafs_conf_default_mode = preferred_mode,
      logged = []\<rparr>"

definition configure_rafs :: "string list \<Rightarrow> json \<Rightarrow> RafsConf \<Rightarrow> error + RafsConf" where
  "configure_rafs k v c =
     (case set_path k v (ns_device_conf c) of
        Inl e \<Rightarrow> Inl e
      | Inr d \<Rightarrow> Inr (c\<lparr>ns_device_conf := d\<rparr>))"

text \<open>The keyword arguments that \<^verbatim>\<open>set_rafs_backend\<close> looks at; \<open>None\<close> where the caller
  gave none.\<close>

record backend_kwargs =
  kw_repo :: "json option"
  kw_scheme :: "json option"
  kw_prefix :: "json option"
  kw_image :: "RafsImage option"

definition no_kwargs :: backend_kwargs where
  "no_kwargs = \<lparr>kw_repo = None, kw_scheme = None, kw_prefix = None, kw_image = None\<rparr>"

definition set_rafs_backend ::
  "NydusAnchor \<Rightarrow> Backend \<Rightarrow> backend_kwargs \<Rightarrow> RafsConf \<Rightarrow> error + RafsConf" where
  "set_rafs_backend anchor btype kwargs =
     seq [
       configure_rafs [''device'', ''backend'', ''type''] (JStr (Backend_str btype)),
       py_if (btype = REGISTRY) [
         (\<lambda>c. case kw_repo kwargs of
                 None \<Rightarrow> Inr c
               | Some repo \<Rightarrow>
                   (case py_path_join (registry_namespace anchor) repo of
                      Inl e \<Rightarrow> Inl e
                    | Inr p \<Rightarrow> configure_rafs [''device'', ''backend'', ''config'', ''repo''] (JStr p) c)),
         configure_rafs [''device'', ''backend'', ''config'', ''scheme'']
           (case kw_scheme kwargs of Some s \<Rightarrow> s | None \<Rightarrow> JStr ''http''),
         configure_rafs [''device'', ''backend'', ''config'', ''host''] (registry_url anchor),
         configure_rafs [''device'', ''backend'', ''config'', ''auth''] (registry_auth anchor)],
       py_if (btype = OSS) [
         (\<lambda>c. case kw_prefix kwargs of
                 None \<Rightarrow> Inr c
               | Some p \<Rightarrow> configure_rafs [''device'', ''backend'', ''config'', ''object_prefix''] p c),
         configure_rafs [''device'', ''backend'', ''config'', ''endpoint''] (oss_endpoint anchor),
         configure_rafs [''device'', ''backend'', ''config'', ''access_key_id''] (oss_ak_id anchor),
         configure_rafs [''device'', ''backend'', ''config'', ''access_key_secret'']
           (oss_ak_secret anchor),
         configure_rafs [''device'', ''backend'', ''config'', ''bucket_name''] (oss_bucket anchor)],
       py_if (btype = BACKEND_PROXY) [
         configure_rafs [''device'', ''backend'', ''type''] (JStr ''registry''),
         configure_rafs [''device'', ''backend'', ''config'', ''scheme''] (JStr ''http''),
         configure_rafs [''device'', ''backend'', ''config'', ''repo''] (JStr ''nydus''),
         configure_rafs [''device'', ''backend'', ''config'', ''host''] (backend_proxy_url anchor)],
       py_if (btype = LOCALFS) [
         (\<lambda>c. case kw_image kwargs of
                 Some img \<Rightarrow>
                   (case localfs_backing_blob img of
                      None \<Rightarrow> Inl AttributeError
                    | Some b \<Rightarrow>
                        configure_rafs [''device'', ''backend'', ''config'', ''blob_file''] (JStr b) c)
               | None \<Rightarrow>
                   configure_rafs [''device'', ''backend'', ''config'', ''dir'']
                     (localfs_workdir anchor) c)]]"

definition get_rafs_backend :: "RafsConf \<Rightarrow> error + json" where
  "get_rafs_backend c = get_path [''device'', ''backend'', ''type''] (ns_device_conf c)"

text \<open>\<^verbatim>\<open>enable_rafs_blobcache(is_compressed=False, work_dir=None)\<close>.\<close>

definition blobcache_namespace :: "NydusAnchor \<Rightarrow> bool \<Rightarrow> json \<Rightarrow> json" where
  "blobcache_namespace anchor is_compressed work_dir =
     JObj [(''type'', JStr ''blobcache''),
           (''config'', JObj [(''work_dir'', if work_dir = JNull then blobcache_dir anchor else work_dir)]),
           (''compressed'', JBool is_compressed)]"

definition enable_rafs_blobcache ::
  "NydusAnchor \<Rightarrow> bool \<Rightarrow> json \<Rightarrow> RafsConf \<Rightarrow> error + RafsConf" where
  "enable_rafs_blobcache anchor is_compressed work_dir c =
     configure_rafs [''device'', ''cache''] (blobcache_namespace anchor is_compressed work_dir) c"

definition enable_fs_prefetch :: "json \<Rightarrow> json \<Rightarrow> json \<Rightarrow> json \<Rightarrow> RafsConf \<Rightarrow> error + RafsConf" where
  "enable_fs_prefetch threads_count merging_size bandwidth_rate prefetch_all =
     seq [
       configure_rafs [''fs_prefetch'', ''enable''] (JBool True),
       configure_rafs [''fs_prefetch'', ''threads_count''] threads_count,
       configure_rafs [''fs_prefetch'', ''merging_size''] merging_size,
       configure_rafs [''fs_prefetch'', ''bandwidth_rate''] bandwidth_rate,
       configure_rafs [''fs_prefetch'', ''prefetch_all''] prefetch_all]"

definition enable_validation :: "NydusAnchor \<Rightarrow> RafsConf \<Rightarrow> error + RafsConf" where
  "enable_validation anchor c =
     (if fs_version anchor = 6 then Inr c
      else configure_rafs [''digest_validate''] (JBool True) c)"

definition amplify_io :: "json \<Rightarrow> RafsConf \<Rightarrow> error + RafsConf" where
  "amplify_io size_v c = configure_rafs [''amplify_io''] size_v c"

definition enable_xattr :: "RafsConf \<Rightarrow> error + RafsConf" where
  "enable_xattr c = configure_rafs [''enable_xattr''] (JBool True) c"

text \<open>
  \<^verbatim>\<open>dump_rafs_conf\<close>: for format version 6 the blob cache is enabled with the default
  arguments; then the file is emptied, rewound and written.
\<close>

definition log_call :: "string \<Rightarrow> string \<Rightarrow> json list \<Rightarrow> RafsConf \<Rightarrow> error + RafsConf" where
  "log_call level msg args c = Inr (c\<lparr>logged := logged c @ [(level, msg, args)]\<rparr>)"

definition dump_rafs_conf :: "NydusAnchor \<Rightarrow> RafsConf \<Rightarrow> error + RafsConf" where
  "dump_rafs_conf anchor =
     seq [
       py_if (fs_version anchor = 6) [
         log_call ''warning'' ''Rafs v6 must enable blobcache'' [],
         enable_rafs_blobcache anchor False JNull],
       (\<lambda>c. Inr (c\<lparr>conf_file_wrapper := file_truncate 0 (conf_file_wrapper c)\<rparr>)),
       (\<lambda>c. Inr (c\<lparr>conf_file_wrapper := file_seek 0 (conf_file_wrapper c)\<rparr>)),
       (\<lambda>c. log_call ''info'' ''Current rafs metadata mode *%s*''
               [JStr (rafs_conf_default_mode c)] c),
       (\<lambda>c. Inr (c\<lparr>device_conf := ns_device_conf c\<rparr>)),
       (\<lambda>c. Inr (c\<lparr>conf_file_wrapper := file_write (json_dumps (device_conf c)) (conf_file_wrapper c)\<rparr>))]"

section \<open>\<^verbatim>\<open>RafsImage\<close>: building an image and cleaning up\<close>

text \<open>
  What the functions below see of the machine: the paths that exist in the file system
  (files and directories), the working directory, the blobs held by the object store, and the anchor's dustbin.
  \<^verbatim>\<open>os.path.abspath\<close> joins the working directory and the path; paths are taken as
  normalised already.
\<close>

record world =
  files :: "string set"
  cwd :: string
  oss_objects :: "json set"
  dustbin :: "string list"

definition exists_path :: "string \<Rightarrow> world \<Rightarrow> bool" where
  "exists_path path w = (path \<in> files w)"

definition abspath :: "string \<Rightarrow> world \<Rightarrow> string" where
  "abspath path w = posixpath_join (cwd w) path"

text \<open>\<^verbatim>\<open>os.unlink\<close> raises \<^verbatim>\<open>FileNotFoundError\<close> on a path that does not exist.\<close>

definition unlink :: "string \<Rightarrow> world \<Rightarrow> error + world" where
  "unlink path w =
     (if path \<in> files w then Inr (w\<lparr>files := files w - {path}\<rparr>) else Inl FileNotFoundError)"

text \<open>\<^verbatim>\<open>posixpath.dirname\<close>: the path up to its last slash, without trailing slashes
  unless it consists of slashes only.\<close>

definition posixpath_dirname :: "string \<Rightarrow> string" where
  "posixpath_dirname path =
     (let head = rev (dropWhile (\<lambda>c. c \<noteq> CHR ''/'') (rev path))
      in if filter (\<lambda>c. c \<noteq> CHR ''/'') head \<noteq> []
         then rev (dropWhile (\<lambda>c. c = CHR ''/'') (rev head))
         else head)"

text \<open>\<^verbatim>\<open>shutil.copy(src, dst)\<close> of a file to a path that is not a directory: it raises
  \<^verbatim>\<open>FileNotFoundError\<close> when the source does not exist or the directory of the
  destination does not exist; a destination without a directory part lies in the working
  directory.\<close>

definition shutil_copy :: "string \<Rightarrow> string \<Rightarrow> world \<Rightarrow> error + world" where
  "shutil_copy src dst w =
     (if src \<notin> files w then Inl FileNotFoundError
      else if posixpath_dirname dst \<noteq> [] \<and> posixpath_dirname dst \<notin> files w
        then Inl FileNotFoundError
      else Inr (w\<lparr>files := insert dst (files w)\<rparr>))"

text \<open>Modelled from the spec: \<^verbatim>\<open>NydusAnchor.put_dustbin\<close> is not in \<^verbatim>\<open>rafs.py\<close>; it
  registers a path with the teardown registry, which accumulates paths.\<close>

definition put_dustbin :: "string \<Rightarrow> world \<Rightarrow> world" where
  "put_dustbin path w = w\<lparr>dustbin := dustbin w @ [path]\<rparr>"

text \<open>Modelled from the spec: \<^verbatim>\<open>OssHelper\<close> (module \<^verbatim>\<open>oss\<close>) is not in \<^verbatim>\<open>rafs.py\<close>;
  \<^verbatim>\<open>upload\<close> stores the blob in the bucket under its content identifier, \<^verbatim>\<open>rm\<close> deletes
  the remote copy, and an object already deleted is not an error.\<close>

definition oss_upload :: "json \<Rightarrow> world \<Rightarrow> world" where
  "oss_upload bid w = w\<lparr>oss_objects := insert bid (oss_objects w)\<rparr>"

definition oss_rm :: "json \<Rightarrow> world \<Rightarrow> world" where
  "oss_rm bid w = w\<lparr>oss_objects := oss_objects w - {bid}\<rparr>"

text \<open>\<^verbatim>\<open>try: stmt except (handled): pass\<close> around one statement that changes nothing
  when it raises.\<close>

definition try_pass :: "error list \<Rightarrow> ('s \<Rightarrow> error + 's) \<Rightarrow> 's \<Rightarrow> error + 's" where
  "try_pass handled stmt s =
     (case stmt s of
        Inl e \<Rightarrow> if e \<in> set handled then Inr s else Inl e
      | Inr s' \<Rightarrow> Inr s')"

text \<open>A read of an attribute that the object may not have.\<close>

definition attr :: "'a option \<Rightarrow> ('a \<Rightarrow> 's \<Rightarrow> error + 's) \<Rightarrow> 's \<Rightarrow> error + 's" where
  "attr a f s = (case a of None \<Rightarrow> Inl AttributeError | Some v \<Rightarrow> f v s)"

text \<open>\<^verbatim>\<open>__init__\<close>: the names are those given by the caller or by \<^verbatim>\<open>tempfile\<close>.\<close>

definition RafsImage_init :: "string \<Rightarrow> string \<Rightarrow> bool \<Rightarrow> world \<Rightarrow> RafsImage" where
  "RafsImage_init bootstrap blob_path clear w =
     \<lparr>bootstrap_name = bootstrap, blob_abs_path = blob_path, blob_id = JNull,
      test_dir = cwd w, created = False, clear_from_oss = clear, oss_uploader = None,
      backend_type = None, oss_helper = None, bootstrap_path = None,
      oss_blob_abs_path = None, localfs_backing_blob = None,
      parent_blob = None, parent_bootstrap = None\<rparr>"

text \<open>
  The builder run, as \<^verbatim>\<open>create_image\<close> observes it after \<^verbatim>\<open>p.wait()\<close>: the exit status,
  the paths that exist then, and the document in the \<^verbatim>\<open>--output-json\<close> file (\<open>None\<close>
  when \<^verbatim>\<open>json.load\<close> cannot decode the file).
\<close>

record builder_run =
  returncode :: int
  files_after :: "string set"
  output_json :: "json option"

text \<open>\<^verbatim>\<open>doc["blobs"]\<close> and \<^verbatim>\<open>v[-1]\<close> on the values \<^verbatim>\<open>json.load\<close> can return.\<close>

fun getitem_str :: "json \<Rightarrow> string \<Rightarrow> error + json" where
  "getitem_str (JObj kvs) k = (case map_of kvs k of None \<Rightarrow> Inl KeyError | Some v \<Rightarrow> Inr v)"
| "getitem_str _ k = Inl TypeError"

fun getitem_last :: "json \<Rightarrow> error + json" where
  "getitem_last (JArr xs) = (if xs = [] then Inl IndexError else Inr (last xs))"
| "getitem_last (JStr s) = (if s = [] then Inl IndexError else Inr (JStr [last s]))"
| "getitem_last (JObj kvs) = Inl KeyError"
| "getitem_last _ = Inl TypeError"

definition last_blob :: "json option \<Rightarrow> error + json" where
  "last_blob out =
     (case out of
        None \<Rightarrow> Inl JSONDecodeError
      | Some doc \<Rightarrow> (case getitem_str doc ''blobs'' of Inl e \<Rightarrow> Inl e | Inr v \<Rightarrow> getitem_last v))"

text \<open>
  \<^verbatim>\<open>create_image\<close>, from the assignment of its arguments to the return. The arguments
  that only add to the command line are left out with it.
\<close>

definition create_image_steps ::
  "NydusAnchor \<Rightarrow> bool \<Rightarrow> string \<Rightarrow> builder_run
     \<Rightarrow> (RafsImage \<times> world \<Rightarrow> error + RafsImage \<times> world) list" where
  "create_image_steps anchor clear uploader run =
     [
       (\<lambda>(img, w). Inr (img\<lparr>clear_from_oss := clear, oss_uploader := Some uploader\<rparr>, w)),
       (\<lambda>(img, w). if uploader \<in> {''util'', ''builder'', ''none''} then Inr (img, w)
                    else Inl AssertionError),
       (\<lambda>(img, w). Inr (img, w\<lparr>files := files_after run\<rparr>)),
       (\<lambda>(img, w). if returncode run = 0 then Inr (img, w) else Inl AssertionError),
       (\<lambda>(img, w). if exists_path (posixpath_join (test_dir img) (bootstrap_name img)) w
                    then Inr (img, w) else Inl AssertionError),
       (\<lambda>(img, w). Inr (img\<lparr>created := True\<rparr>, w)),
       (\<lambda>(img, w). case last_blob (output_json run) of
                      Inl e \<Rightarrow> Inl e
                    | Inr b \<Rightarrow> Inr (img\<lparr>blob_id := b\<rparr>, w)),
       (\<lambda>(img, w). Inr (img\<lparr>bootstrap_path := Some (abspath (bootstrap_name img) w)\<rparr>, w)),
       (\<lambda>(img, w).
          if backend_type img = Some OSS then
            (if oss_uploader img = Some ''util'' then
               attr (oss_helper img) (\<lambda>h (img, w). Inr (img, oss_upload (blob_id img) w)) (img, w)
             else Inr (img, w))
          else if backend_type img = Some BACKEND_PROXY then
            (case py_path_join (backend_proxy_blobs_dir anchor) (blob_id img) of
               Inl e \<Rightarrow> Inl e
             | Inr dst \<Rightarrow>
                 (case shutil_copy (blob_abs_path img) dst w of
                    Inl e \<Rightarrow> Inl e
                  | Inr w' \<Rightarrow> Inr (img, w')))
          else if backend_type img = Some LOCALFS then
            (case py_path_join (localfs_workdir anchor) (blob_id img) of
               Inl e \<Rightarrow> Inl e
             | Inr b \<Rightarrow> Inr (img\<lparr>localfs_backing_blob := Some b\<rparr>, w))
          else Inr (img, w)),
       (\<lambda>(img, w). Inr (img, put_dustbin (bootstrap_name img) w)),
       (\<lambda>(img, w). Inr (img, put_dustbin (blob_abs_path img) w)),
       try_pass [AttributeError]
         (\<lambda>(img, w). attr (localfs_backing_blob img) (\<lambda>b (img, w). Inr (img, put_dustbin b w)) (img, w))]"

definition create_image ::
  "NydusAnchor \<Rightarrow> bool \<Rightarrow> string \<Rightarrow> builder_run \<Rightarrow> RafsImage \<times> world
     \<Rightarrow> error + RafsImage \<times> world" where
  "create_image anchor clear uploader run = seq (create_image_steps anchor clear uploader run)"

text \<open>
  An exception does not undo the assignments made before it. \<open>state_after\<close> is the
  state in which a sequence of statements ends, by running to its end or by an exception;
  each statement of \<open>create_image_steps\<close> changes nothing when it raises.
\<close>

fun state_after :: "('s \<Rightarrow> error + 's) list \<Rightarrow> 's \<Rightarrow> 's" where
  "state_after [] s = s"
| "state_after (f # fs) s = (case f s of Inl e \<Rightarrow> s | Inr s' \<Rightarrow> state_after fs s')"

text \<open>\<^verbatim>\<open>clean_up\<close>. The first two \<^verbatim>\<open>os.unlink\<close> calls stand outside any
  \<^verbatim>\<open>try\<close>; the others pass over the exceptions their \<^verbatim>\<open>except\<close> clauses name.\<close>

definition clean_up :: "RafsImage \<Rightarrow> world \<Rightarrow> error + world" where
  "clean_up img =
     seq [
       (\<lambda>w. case bootstrap_path img of None \<Rightarrow> Inr w | Some bp \<Rightarrow> unlink bp w),
       (\<lambda>w. case oss_blob_abs_path img of None \<Rightarrow> Inr w | Some _ \<Rightarrow> unlink (blob_abs_path img) w),
       (\<lambda>w. case localfs_backing_blob img of
               None \<Rightarrow> Inr w
             | Some b \<Rightarrow> try_pass [FileNotFoundError] (unlink b) w),
       try_pass [FileNotFoundError, AttributeError] (unlink (blob_abs_path img)),
       try_pass [FileNotFoundError, AttributeError]
         (attr (parent_blob img) (\<lambda>pb w.
            case unlink pb w of
              Inl e \<Rightarrow> Inl e
            | Inr w' \<Rightarrow>
                try_pass [FileNotFoundError, AttributeError]
                  (attr (parent_bootstrap img) unlink) w')),
       try_pass [AttributeError]
         (\<lambda>w. if clear_from_oss img \<and> backend_type img = Some OSS
               then attr (oss_helper img) (\<lambda>h w. Inr (oss_rm (blob_id img) w)) w
               else Inr w)]"

section \<open>\<^verbatim>\<open>NydusDaemon\<close>: mounting\<close>

text \<open>
  The daemon process is what \<^verbatim>\<open>p.poll()\<close> answers: \<open>proc k\<close> is the answer in iteration
  \<open>k\<close> of the wait loop, \<open>None\<close> while the process runs and its exit status afterwards.
  \<open>test_fn k\<close> is the answer of \<^verbatim>\<open>test_fn(self.mountpoint)\<close> in iteration \<open>k\<close>.
\<close>

type_synonym process = "nat \<Rightarrow> int option"

record NydusDaemon =
  conf :: "RafsConf option"
  mountpoint :: string
  p :: "process option"

text \<open>
  The loop of \<^verbatim>\<open>_wait_for_mount\<close>, with \<open>elapsed\<close> as the source updates it
  (\<^verbatim>\<open>elapsed -= 1\<close>) and the iteration number \<open>k\<close>. It may run forever, so it returns
  an \<open>option\<close>: \<open>None\<close> when it does not return. A return of \<^verbatim>\<open>True\<close> is \<open>Inr k\<close>, with
  the iteration in which the probe answered.
\<close>

partial_function (option) wait_loop ::
  "(nat \<Rightarrow> bool) \<Rightarrow> process option \<Rightarrow> int \<Rightarrow> nat \<Rightarrow> (error + nat) option" where
  "wait_loop test_fn proc elapsed k =
     (if elapsed < 300 then
        (if test_fn k then Some (Inr k)
         else (case proc of
                 None \<Rightarrow> Some (Inl AttributeError)
               | Some poll \<Rightarrow>
                   if poll k \<noteq> None
                   then Some (Inl (PytestFail ''file system process terminated prematurely''))
                   else wait_loop test_fn proc (elapsed - 1) (Suc k)))
      else Some (Inl (PytestFail ''mountpoint failed to come up'')))"

definition wait_for_mount :: "(nat \<Rightarrow> bool) \<Rightarrow> NydusDaemon \<Rightarrow> (error + nat) option" where
  "wait_for_mount test_fn d = wait_loop test_fn (p d) 0 0"

text \<open>
  \<^verbatim>\<open>mount(limited_mem, wait_mount, dump_config)\<close>. \<open>ismount\<close> is \<^verbatim>\<open>os.path.ismount\<close>,
  \<open>proc\<close> the process that \<^verbatim>\<open>utils.run\<close> starts. \<open>limited_mem\<close> is \<open>Some kb\<close> for a
  \<^verbatim>\<open>Size\<close>; the source then adds a string to the list \<^verbatim>\<open>cmd\<close>, a \<^verbatim>\<open>TypeError\<close>.
\<close>

definition dump_config_step :: "NydusAnchor \<Rightarrow> bool \<Rightarrow> NydusDaemon \<Rightarrow> error + NydusDaemon" where
  "dump_config_step anchor dump_config d =
     (case conf d of
        Some c \<Rightarrow>
          if dump_config then
            (case dump_rafs_conf anchor c of
               Inl e \<Rightarrow> Inl e
             | Inr c' \<Rightarrow> Inr (d\<lparr>conf := Some c'\<rparr>))
          else Inr d
      | None \<Rightarrow> Inr d)"

definition mount ::
  "NydusAnchor \<Rightarrow> nat option \<Rightarrow> bool \<Rightarrow> bool \<Rightarrow> (nat \<Rightarrow> bool) \<Rightarrow> process \<Rightarrow> NydusDaemon
     \<Rightarrow> (error + NydusDaemon) option" where
  "mount anchor limited_mem wait_mount dump_config ismount proc d =
     (case dump_config_step anchor dump_config d of
        Inl e \<Rightarrow> Some (Inl e)
      | Inr d1 \<Rightarrow>
          if limited_mem \<noteq> None then Some (Inl TypeError)
          else
            let d2 = d1\<lparr>p := Some proc\<rparr> in
            if wait_mount then
              (case wait_for_mount ismount d2 of
                 None \<Rightarrow> None
               | Some (Inl e) \<Rightarrow> Some (Inl e)
               | Some (Inr k) \<Rightarrow> Some (Inr d2))
            else Some (Inr d2))"

section \<open>Sample values\<close>

definition sample_anchor :: "int \<Rightarrow> NydusAnchor" where
  "sample_anchor v =
     \<lparr>registry_namespace = JStr ''nydus'', registry_url = JStr ''localhost:5000'',
      registry_auth = JNull, oss_endpoint = JStr ''oss.example.com'', oss_ak_id = JStr ''id'',
      oss_ak_secret = JStr ''secret'', oss_bucket = JStr ''b'',
      backend_proxy_url = JStr ''localhost:8000'', localfs_workdir = JStr ''/w/localfs'',
      blobcache_dir = JStr ''/w/blobcache'', backend_proxy_blobs_dir = JStr ''/w/proxy'',
      fs_version = v\<rparr>"

text \<open>An anchor none of whose backend fields is set.\<close>

definition unset_anchor :: NydusAnchor where
  "unset_anchor =
     \<lparr>registry_namespace = JNull, registry_url = JNull, registry_auth = JNull,
      oss_endpoint = JNull, oss_ak_id = JNull, oss_ak_secret = JNull, oss_bucket = JNull,
      backend_proxy_url = JNull, localfs_workdir = JNull, blobcache_dir = JNull,
      backend_proxy_blobs_dir = JNull, fs_version = 5\<rparr>"

text \<open>A configuration with a blob cache of the caller's choice.\<close>

definition custom_cache_conf :: RafsConf where
  "custom_cache_conf = (RafsConf_init ''direct'')\<lparr>ns_device_conf :=
       JObj [(''device'', JObj [(''backend'', JObj [(''type'', JStr ''oss''), (''config'', JObj [])]),
                                (''cache'', JObj [(''type'', JStr ''blobcache''),
                                                  (''config'', JObj [(''work_dir'', JStr ''/mine'')]),
                                                  (''compressed'', JBool True)])]),
             (''mode'', JStr ''direct''), (''iostats_files'', JBool False),
             (''fs_prefetch'', JObj [(''enable'', JBool False)])]\<rparr>"

text \<open>A world, and a builder run that leaves a bootstrap, a blob and two blob
  identifiers in its output.\<close>

definition sample_world :: world where
  "sample_world = \<lparr>files = {''/src/app''}, cwd = ''/t'', oss_objects = {}, dustbin = []\<rparr>"

definition sample_run :: builder_run where
  "sample_run = \<lparr>returncode = 0, files_after = {''/src/app'', ''/t/bs'', ''/w/blob''},
                  output_json = Some (JObj [(''blobs'', JArr [JStr ''b0'', JStr ''b1''])])\<rparr>"

text \<open>A daemon that is not started yet.\<close>

definition sample_daemon :: NydusDaemon where
  "sample_daemon = \<lparr>conf = Some (RafsConf_init ''direct''), mountpoint = ''/mnt'', p = None\<rparr>"

text \<open>A mountpoint that never becomes a mount, and a process that has exited with
  status 1 when it is polled for the third time.\<close>

definition never_mounted :: "nat \<Rightarrow> bool" where
  "never_mounted k = False"

definition exits_in_third :: process where
  "exits_in_third k = (if k = 2 then Some 1 else None)"

text \<open>A statement that removes files at most.\<close>

definition shrinks :: "(world \<Rightarrow> error + world) \<Rightarrow> bool" where
  "shrinks f = (\<forall>w w'. f w = Inr w' \<longrightarrow> files w' \<subseteq> files w)"

section \<open>Attribute paths\<close>

lemma setattr_idem: "setattr obj k v = Inr obj' \<Longrightarrow> setattr obj' k v = Inr obj'"
  by (cases obj) (auto simp: update_conv' AList.update_triv)

lemma getattr_setattr_same: "setattr obj k v = Inr obj' \<Longrightarrow> getattr obj' k = Inr v"
  by (cases obj) (auto simp: update_conv')

lemma getattr_setattr_other:
  "setattr obj k v = Inr obj' \<Longrightarrow> k' \<noteq> k \<Longrightarrow> getattr obj' k' = getattr obj k'"
  by (cases obj) (auto simp: update_conv')

lemma getattr_shape: "getattr obj k = Inr v \<Longrightarrow> \<exists>kvs. obj = JObj kvs \<and> map_of kvs k = Some v"
  by (cases obj) (auto split: option.splits)

lemma set_path_ConsD:
  "set_path (k # k' # ks) v obj = Inr obj' \<Longrightarrow>
     \<exists>child child'. getattr obj k = Inr child \<and> set_path (k' # ks) v child = Inr child'
        \<and> setattr obj k child' = Inr obj'"
  by (auto split: sum.splits)

lemma set_path_ConsI:
  "getattr obj k = Inr child \<Longrightarrow> set_path (k' # ks) v child = Inr child' \<Longrightarrow>
     set_path (k # k' # ks) v obj = setattr obj k child'"
  by simp

text \<open>Assigning the same value along the same path a second time changes nothing.\<close>

lemma set_path_idem: "set_path path v obj = Inr obj' \<Longrightarrow> set_path path v obj' = Inr obj'"
proof (induction path v obj arbitrary: obj' rule: set_path.induct)
  case (1 v obj)
  then show ?case by simp
next
  case (2 k v obj)
  then show ?case by (simp add: setattr_idem)
next
  case (3 k k' ks v obj)
  from set_path_ConsD[OF "3.prems"] obtain child child' where
    g: "getattr obj k = Inr child" and s: "set_path (k' # ks) v child = Inr child'"
    and a: "setattr obj k child' = Inr obj'" by blast
  have s': "set_path (k' # ks) v child' = Inr child'" by (rule "3.IH"[OF g s])
  have g': "getattr obj' k = Inr child'" by (rule getattr_setattr_same[OF a])
  show ?case
    unfolding set_path_ConsI[OF g' s'] by (rule setattr_idem[OF a])
qed

text \<open>A path reads back what was assigned to it.\<close>

lemma get_set_path: "set_path path v obj = Inr obj' \<Longrightarrow> get_path path obj' = Inr v"
proof (induction path v obj arbitrary: obj' rule: set_path.induct)
  case (1 v obj)
  then show ?case by simp
next
  case (2 k v obj)
  then show ?case by (simp add: getattr_setattr_same)
next
  case (3 k k' ks v obj)
  from set_path_ConsD[OF "3.prems"] obtain child child' where
    g: "getattr obj k = Inr child" and s: "set_path (k' # ks) v child = Inr child'"
    and a: "setattr obj k child' = Inr obj'" by blast
  have "get_path (k' # ks) child' = Inr v" by (rule "3.IH"[OF g s])
  moreover have "getattr obj' k = Inr child'" by (rule getattr_setattr_same[OF a])
  ultimately show ?case by simp
qed

text \<open>A path that neither lies under the assigned one nor leads to it reads as before.\<close>

lemma get_set_path_other:
  "set_path path v obj = Inr obj' \<Longrightarrow> \<not> prefix path q \<Longrightarrow> \<not> prefix q path \<Longrightarrow>
     get_path q obj' = get_path q obj"
proof (induction path v obj arbitrary: obj' q rule: set_path.induct)
  case (1 v obj)
  then show ?case by simp
next
  case (2 k v obj)
  then show ?case by (cases q) (auto simp: getattr_setattr_other)
next
  case (3 k k' ks v obj)
  from set_path_ConsD[OF "3.prems"(1)] obtain child child' where
    g: "getattr obj k = Inr child" and s: "set_path (k' # ks) v child = Inr child'"
    and a: "setattr obj k child' = Inr obj'" by blast
  from "3.prems"(3) obtain j js where q: "q = j # js" by (cases q) auto
  show ?case
  proof (cases "j = k")
    case True
    with q "3.prems" have "\<not> prefix (k' # ks) js" "\<not> prefix js (k' # ks)" by auto
    from "3.IH"[OF g s this] have "get_path js child' = get_path js child" .
    with True q g getattr_setattr_same[OF a] show ?thesis by simp
  next
    case False
    with q getattr_setattr_other[OF a, of j] show ?thesis by simp
  qed
qed

lemma get_path3_shape:
  "get_path [k1, k2, k3] obj = Inr (JObj cfg) \<Longrightarrow>
     \<exists>top l1 l2. obj = JObj top \<and> map_of top k1 = Some (JObj l1) \<and> map_of l1 k2 = Some (JObj l2)
        \<and> map_of l2 k3 = Some (JObj cfg)"
  apply (cases obj; simp split: option.splits)
  subgoal for top x
    apply (cases x; simp split: option.splits)
    subgoal for l1 y
      by (cases y; simp split: option.splits)
    done
  done

section \<open>Serialising the configuration\<close>

lemma str_nat_nonempty: "str_nat n \<noteq> []"
  by (subst str_nat.simps) simp

lemma json_dumps_nonempty: "json_dumps j \<noteq> []"
  by (cases j) (simp_all add: str_int_def str_nat_nonempty py_encode_basestring_ascii_def)

lemma dump_v6:
  "fs_version anchor = 6 \<Longrightarrow> dump_rafs_conf anchor c =
     (case set_path [''device'', ''cache''] (blobcache_namespace anchor False JNull)
             (ns_device_conf c) of
        Inl e \<Rightarrow> Inl e
      | Inr d \<Rightarrow> Inr (c\<lparr>ns_device_conf := d, device_conf := d,
            conf_file_wrapper :=
              (conf_file_wrapper c)\<lparr>content := json_dumps d, pos := length (json_dumps d)\<rparr>,
            logged := logged c @ [(''warning'', ''Rafs v6 must enable blobcache'', []),
               (''info'', ''Current rafs metadata mode *%s*'', [JStr (rafs_conf_default_mode c)])]\<rparr>))"
  unfolding dump_rafs_conf_def py_if_def enable_rafs_blobcache_def configure_rafs_def log_call_def
    file_truncate_def file_seek_def file_write_def
  by (simp split: sum.splits)

lemma dump_not_v6:
  "fs_version anchor \<noteq> 6 \<Longrightarrow> dump_rafs_conf anchor c =
     Inr (c\<lparr>device_conf := ns_device_conf c,
            conf_file_wrapper :=
              (conf_file_wrapper c)\<lparr>content := json_dumps (ns_device_conf c),
                                     pos := length (json_dumps (ns_device_conf c))\<rparr>,
            logged := logged c @
              [(''info'', ''Current rafs metadata mode *%s*'', [JStr (rafs_conf_default_mode c)])]\<rparr>)"
  unfolding dump_rafs_conf_def py_if_def enable_rafs_blobcache_def configure_rafs_def log_call_def
    file_truncate_def file_seek_def file_write_def
  by (simp split: sum.splits)

text \<open>
  C5. With format version 6, \<^verbatim>\<open>dump_rafs_conf\<close> on a configuration that has its
  \<^verbatim>\<open>device\<close> namespace (whether or not a cache was configured) succeeds, logs the
  warning, and writes a document whose \<^verbatim>\<open>device.cache.type\<close> is \<^verbatim>\<open>"blobcache"\<close>: the
  file holds exactly the serialisation of the dictionary that has this cache type.
\<close>

theorem dump_rafs_conf_v6_blobcache:
  assumes "fs_version anchor = 6"
    and "getattr (ns_device_conf c) ''device'' = Inr (JObj dev)"
  shows "\<exists>c'. dump_rafs_conf anchor c = Inr c'
     \<and> get_path [''device'', ''cache'', ''type''] (device_conf c') = Inr (JStr ''blobcache'')
     \<and> content (conf_file_wrapper c') = json_dumps (device_conf c')
     \<and> (''warning'', ''Rafs v6 must enable blobcache'', []) \<in> set (logged c')"
proof -
  from getattr_shape[OF assms(2)] obtain top where
    "ns_device_conf c = JObj top" "map_of top ''device'' = Some (JObj dev)" by blast
  then show ?thesis
    by (simp add: dump_v6[OF assms(1)] blobcache_namespace_def update_conv')
qed

theorem dump_rafs_conf_v6_blobcache_witness:
  \<open>fs_version (sample_anchor 6) = 6
   \<and> getattr (ns_device_conf (RafsConf_init ''direct'')) ''device''
       = Inr (JObj [(''backend'', JObj [(''type'', JStr ''oss''), (''config'', JObj [])])])
   \<and> (\<exists>c'. dump_rafs_conf (sample_anchor 6) (RafsConf_init ''direct'') = Inr c'
     \<and> get_path [''device'', ''cache'', ''type''] (device_conf c') = Inr (JStr ''blobcache'')
     \<and> content (conf_file_wrapper c') = json_dumps (device_conf c')
     \<and> (''warning'', ''Rafs v6 must enable blobcache'', []) \<in> set (logged c'))\<close>
  using dump_rafs_conf_v6_blobcache[of "sample_anchor 6" "RafsConf_init ''direct''"
      "[(''backend'', JObj [(''type'', JStr ''oss''), (''config'', JObj [])])]"]
  by (simp add: sample_anchor_def RafsConf_init_def rafs_conf_default_def)

text \<open>The text written for a fresh configuration under format version 6.\<close>

lemma dump_rafs_conf_v6_text:
  \<open>map_sum id (\<lambda>c. content (conf_file_wrapper c))
     (dump_rafs_conf (sample_anchor 6) (RafsConf_init ''direct''))
   = Inr ''{"device": {"backend": {"type": "oss", "config": {}}, "cache": {"type": "blobcache", "config": {"work_dir": "/w/blobcache"}, "compressed": false}}, "mode": "direct", "iostats_files": false, "fs_prefetch": {"enable": false}}''\<close>
  by code_simp

text \<open>
  C6. When \<^verbatim>\<open>dump_rafs_conf\<close> has succeeded, a second call with no mutation in between
  succeeds too and leaves the same text in the file: the text is the serialisation of
  the configuration, once, and not the first text followed by the second. The
  configuration itself is the same after both calls.
\<close>

theorem dump_rafs_conf_twice:
  assumes "dump_rafs_conf anchor c = Inr c1"
  shows "\<exists>c2. dump_rafs_conf anchor c1 = Inr c2
     \<and> content (conf_file_wrapper c2) = content (conf_file_wrapper c1)
     \<and> content (conf_file_wrapper c2) = json_dumps (ns_device_conf c1)
     \<and> content (conf_file_wrapper c2) \<noteq> content (conf_file_wrapper c1) @ content (conf_file_wrapper c1)
     \<and> ns_device_conf c2 = ns_device_conf c1"
proof (cases "fs_version anchor = 6")
  case True
  from assms obtain d where
    d: "set_path [''device'', ''cache''] (blobcache_namespace anchor False JNull)
          (ns_device_conf c) = Inr d"
    and c1: "ns_device_conf c1 = d" "content (conf_file_wrapper c1) = json_dumps d"
    unfolding dump_v6[OF True] by (auto split: sum.splits)
  from set_path_idem[OF d] c1 show ?thesis
    by (simp add: dump_v6[OF True] json_dumps_nonempty)
next
  case False
  with assms show ?thesis
    by (auto simp: dump_not_v6 json_dumps_nonempty)
qed

theorem dump_rafs_conf_twice_witness:
  \<open>dump_rafs_conf (sample_anchor 5) (RafsConf_init ''direct'') =
     Inr ((RafsConf_init ''direct'')
       \<lparr>conf_file_wrapper := \<lparr>content = json_dumps (rafs_conf_default ''direct''),
                               pos = length (json_dumps (rafs_conf_default ''direct''))\<rparr>,
        logged := [(''info'', ''Current rafs metadata mode *%s*'', [JStr ''direct''])]\<rparr>)
   \<and> (\<exists>c2. dump_rafs_conf (sample_anchor 5)
              ((RafsConf_init ''direct'')
                 \<lparr>conf_file_wrapper := \<lparr>content = json_dumps (rafs_conf_default ''direct''),
                               pos = length (json_dumps (rafs_conf_default ''direct''))\<rparr>,
                  logged := [(''info'', ''Current rafs metadata mode *%s*'', [JStr ''direct''])]\<rparr>)
              = Inr c2
     \<and> content (conf_file_wrapper c2) = json_dumps (rafs_conf_default ''direct'')
     \<and> ns_device_conf c2 = rafs_conf_default ''direct'')\<close>
  using dump_rafs_conf_twice[of "sample_anchor 5" "RafsConf_init ''direct''"
      "(RafsConf_init ''direct'')
       \<lparr>conf_file_wrapper := \<lparr>content = json_dumps (rafs_conf_default ''direct''),
                               pos = length (json_dumps (rafs_conf_default ''direct''))\<rparr>,
        logged := [(''info'', ''Current rafs metadata mode *%s*'', [JStr ''direct''])]\<rparr>"]
  by (simp add: dump_not_v6 sample_anchor_def RafsConf_init_def)

text \<open>Serialising changes nothing outside \<^verbatim>\<open>device.cache\<close>.\<close>

lemma dump_frame:
  assumes "dump_rafs_conf anchor c = Inr c'"
    and "\<not> prefix [''device'', ''cache''] q" and "\<not> prefix q [''device'', ''cache'']"
  shows "get_path q (device_conf c') = get_path q (ns_device_conf c)"
proof (cases "fs_version anchor = 6")
  case True
  from assms(1) obtain d where
    d: "set_path [''device'', ''cache''] (blobcache_namespace anchor False JNull)
          (ns_device_conf c) = Inr d"
    and c1: "device_conf c' = d"
    unfolding dump_v6[OF True] by (auto split: sum.splits)
  from get_set_path_other[OF d assms(2,3)] c1 show ?thesis by simp
next
  case False
  with assms(1) show ?thesis by (auto simp: dump_not_v6)
qed

text \<open>
  C10. With format version 6, a cache configured by the caller (any compression flag,
  any work directory) does not reach the document: after \<^verbatim>\<open>dump_rafs_conf\<close> the
  \<^verbatim>\<open>device.cache\<close> object is the default one (the anchor's blob-cache directory, not
  compressed), the file holds the serialisation of that dictionary, and every attribute
  path that neither lies under \<^verbatim>\<open>device.cache\<close> nor leads to it reads as it did before.
\<close>

theorem dump_rafs_conf_v6_overwrites_cache:
  assumes "fs_version anchor = 6"
    and "enable_rafs_blobcache anchor is_compressed work_dir c = Inr c0"
    and "dump_rafs_conf anchor c0 = Inr c1"
  shows "get_path [''device'', ''cache''] (device_conf c1) =
           Inr (JObj [(''type'', JStr ''blobcache''),
                      (''config'', JObj [(''work_dir'', blobcache_dir anchor)]),
                      (''compressed'', JBool False)])
    \<and> content (conf_file_wrapper c1) = json_dumps (device_conf c1)
    \<and> (\<forall>q. \<not> prefix [''device'', ''cache''] q \<and> \<not> prefix q [''device'', ''cache''] \<longrightarrow>
           get_path q (device_conf c1) = get_path q (ns_device_conf c0))"
proof -
  from assms(3) obtain d where
    d: "set_path [''device'', ''cache''] (blobcache_namespace anchor False JNull)
          (ns_device_conf c0) = Inr d"
    and c1: "device_conf c1 = d" "content (conf_file_wrapper c1) = json_dumps d"
    unfolding dump_v6[OF assms(1)] by (auto split: sum.splits)
  from get_set_path[OF d] c1 have "get_path [''device'', ''cache''] (device_conf c1) =
           Inr (JObj [(''type'', JStr ''blobcache''),
                      (''config'', JObj [(''work_dir'', blobcache_dir anchor)]),
                      (''compressed'', JBool False)])"
    by (simp add: blobcache_namespace_def)
  moreover from c1 have "content (conf_file_wrapper c1) = json_dumps (device_conf c1)" by simp
  moreover from dump_frame[OF assms(3)]
  have "\<forall>q. \<not> prefix [''device'', ''cache''] q \<and> \<not> prefix q [''device'', ''cache''] \<longrightarrow>
           get_path q (device_conf c1) = get_path q (ns_device_conf c0)"
    by blast
  ultimately show ?thesis by blast
qed

theorem dump_rafs_conf_v6_overwrites_cache_witness:
  "fs_version (sample_anchor 6) = 6
   \<and> enable_rafs_blobcache (sample_anchor 6) True (JStr ''/mine'') (RafsConf_init ''direct'')
       = Inr custom_cache_conf
   \<and> get_path [''device'', ''cache'', ''config'', ''work_dir''] (ns_device_conf custom_cache_conf)
       = Inr (JStr ''/mine'')
   \<and> (case dump_rafs_conf (sample_anchor 6) custom_cache_conf of
         Inl e \<Rightarrow> False
       | Inr c1 \<Rightarrow>
           get_path [''device'', ''cache''] (device_conf c1) =
             Inr (JObj [(''type'', JStr ''blobcache''),
                        (''config'', JObj [(''work_dir'', JStr ''/w/blobcache'')]),
                        (''compressed'', JBool False)])
           \<and> get_path [''device'', ''backend'', ''type''] (device_conf c1) = Inr (JStr ''oss''))"
proof -
  have v: "fs_version (sample_anchor 6) = 6" by (simp add: sample_anchor_def)
  have e: "enable_rafs_blobcache (sample_anchor 6) True (JStr ''/mine'') (RafsConf_init ''direct'')
       = Inr custom_cache_conf"
    by (simp add: custom_cache_conf_def enable_rafs_blobcache_def configure_rafs_def
        RafsConf_init_def rafs_conf_default_def blobcache_namespace_def)
  have g: "get_path [''device'', ''cache'', ''config'', ''work_dir''] (ns_device_conf custom_cache_conf)
       = Inr (JStr ''/mine'')"
    by (simp add: custom_cache_conf_def)
  obtain c1 where d: "dump_rafs_conf (sample_anchor 6) custom_cache_conf = Inr c1"
    by (simp add: dump_v6[OF v] custom_cache_conf_def)
  note t = dump_rafs_conf_v6_overwrites_cache[OF v e d]
  from t have a: "get_path [''device'', ''cache''] (device_conf c1) =
             Inr (JObj [(''type'', JStr ''blobcache''),
                        (''config'', JObj [(''work_dir'', JStr ''/w/blobcache'')]),
                        (''compressed'', JBool False)])"
    by (simp add: sample_anchor_def)
  from conjunct2[OF conjunct2[OF t], rule_format, of "[''device'', ''backend'', ''type'']"]
  have b: "get_path [''device'', ''backend'', ''type''] (device_conf c1) = Inr (JStr ''oss'')"
    by (simp add: custom_cache_conf_def)
  from v e g d a b show ?thesis by simp
qed

section \<open>Selecting the backend\<close>

lemmas conf_steps = py_if_def configure_rafs_def update_conv'

text \<open>
  C9. \<^verbatim>\<open>set_rafs_backend(Backend.BACKEND_PROXY)\<close> on a configuration that has its
  \<^verbatim>\<open>device.backend.config\<close> namespace leaves \<^verbatim>\<open>device.backend.type\<close> at \<^verbatim>\<open>"registry"\<close>,
  with scheme \<^verbatim>\<open>"http"\<close>, the proxy's URL as host and \<^verbatim>\<open>"nydus"\<close> as repository; every
  document serialised from that configuration has the backend type \<^verbatim>\<open>"registry"\<close>.
\<close>

theorem set_rafs_backend_proxy_is_registry:
  assumes "get_path [''device'', ''backend'', ''config''] (ns_device_conf c) = Inr (JObj cfg)"
  shows "\<exists>c'. set_rafs_backend anchor BACKEND_PROXY kwargs c = Inr c'
     \<and> get_path [''device'', ''backend'', ''type''] (ns_device_conf c') = Inr (JStr ''registry'')
     \<and> get_path [''device'', ''backend'', ''config'', ''scheme''] (ns_device_conf c') = Inr (JStr ''http'')
     \<and> get_path [''device'', ''backend'', ''config'', ''host''] (ns_device_conf c') = Inr (backend_proxy_url anchor)
     \<and> get_path [''device'', ''backend'', ''config'', ''repo''] (ns_device_conf c') = Inr (JStr ''nydus'')
     \<and> (\<forall>c''. dump_rafs_conf anchor c' = Inr c'' \<longrightarrow>
           get_path [''device'', ''backend'', ''type''] (device_conf c'') = Inr (JStr ''registry''))"
proof -
  from get_path3_shape[OF assms] obtain top l1 l2 where
    "ns_device_conf c = JObj top" "map_of top ''device'' = Some (JObj l1)"
    "map_of l1 ''backend'' = Some (JObj l2)" "map_of l2 ''config'' = Some (JObj cfg)" by blast
  then obtain c' where c': "set_rafs_backend anchor BACKEND_PROXY kwargs c = Inr c'"
     and g: "get_path [''device'', ''backend'', ''type''] (ns_device_conf c') = Inr (JStr ''registry'')"
     "get_path [''device'', ''backend'', ''config'', ''scheme''] (ns_device_conf c') = Inr (JStr ''http'')"
     "get_path [''device'', ''backend'', ''config'', ''host''] (ns_device_conf c') = Inr (backend_proxy_url anchor)"
     "get_path [''device'', ''backend'', ''config'', ''repo''] (ns_device_conf c') = Inr (JStr ''nydus'')"
    by (simp add: set_rafs_backend_def conf_steps)
  have "get_path [''device'', ''backend'', ''type''] (device_conf c'') = Inr (JStr ''registry'')"
    if "dump_rafs_conf anchor c' = Inr c''" for c''
    using dump_frame[OF that, of "[''device'', ''backend'', ''type'']"] g(1) by simp
  with c' g show ?thesis by blast
qed

theorem set_rafs_backend_proxy_is_registry_witness:
  "get_path [''device'', ''backend'', ''config''] (ns_device_conf (RafsConf_init ''direct'')) = Inr (JObj [])
   \<and> set_rafs_backend (sample_anchor 5) BACKEND_PROXY no_kwargs (RafsConf_init ''direct'') =
       Inr ((RafsConf_init ''direct'')\<lparr>ns_device_conf :=
         JObj [(''device'', JObj [(''backend'', JObj [(''type'', JStr ''registry''),
                  (''config'', JObj [(''scheme'', JStr ''http''), (''repo'', JStr ''nydus''),
                                     (''host'', JStr ''localhost:8000'')])])]),
               (''mode'', JStr ''direct''), (''iostats_files'', JBool False),
               (''fs_prefetch'', JObj [(''enable'', JBool False)])]\<rparr>)"
  using set_rafs_backend_proxy_is_registry[of "RafsConf_init ''direct''" "[]" "sample_anchor 5" no_kwargs]
  by (simp add: set_rafs_backend_def conf_steps RafsConf_init_def rafs_conf_default_def sample_anchor_def)

text \<open>
  C3, as the specification states it: configuring a backend whose required fields are
  missing fails. It does not: with an anchor that has no endpoint, no access keys and no
  bucket, \<^verbatim>\<open>set_rafs_backend(Backend.OSS)\<close> returns a configuration that holds
  \<^verbatim>\<open>None\<close> in each of these fields.
\<close>

theorem set_rafs_backend_unset_fields_counterexample:
  "set_rafs_backend unset_anchor OSS no_kwargs (RafsConf_init ''direct'') =
     Inr ((RafsConf_init ''direct'')\<lparr>ns_device_conf :=
       JObj [(''device'', JObj [(''backend'', JObj [(''type'', JStr ''oss''),
                (''config'', JObj [(''endpoint'', JNull), (''access_key_id'', JNull),
                                   (''access_key_secret'', JNull), (''bucket_name'', JNull)])])]),
             (''mode'', JStr ''direct''), (''iostats_files'', JBool False),
             (''fs_prefetch'', JObj [(''enable'', JBool False)])]\<rparr>)"
  by (simp add: set_rafs_backend_def conf_steps RafsConf_init_def rafs_conf_default_def
      unset_anchor_def no_kwargs_def)

text \<open>
  C3, amended. \<^verbatim>\<open>set_rafs_backend\<close> checks none of the fields it copies: called
  without the \<^verbatim>\<open>repo\<close> and \<^verbatim>\<open>image\<close> keywords on a configuration that has its
  \<^verbatim>\<open>device.backend.config\<close> namespace, it succeeds for every backend variant and every
  anchor, and stores the anchor's values for that variant as they are.
\<close>

theorem set_rafs_backend_copies_unchecked:
  assumes "get_path [''device'', ''backend'', ''config''] (ns_device_conf c) = Inr (JObj cfg)"
    and "kw_repo kwargs = None" and "kw_image kwargs = None"
  shows "\<exists>c'. set_rafs_backend anchor btype kwargs c = Inr c'
     \<and> (btype = REGISTRY \<longrightarrow>
          get_path [''device'', ''backend'', ''type''] (ns_device_conf c') = Inr (JStr ''registry'')
        \<and> get_path [''device'', ''backend'', ''config'', ''host''] (ns_device_conf c') = Inr (registry_url anchor)
        \<and> get_path [''device'', ''backend'', ''config'', ''auth''] (ns_device_conf c') = Inr (registry_auth anchor))
     \<and> (btype = OSS \<longrightarrow>
          get_path [''device'', ''backend'', ''type''] (ns_device_conf c') = Inr (JStr ''oss'')
        \<and> get_path [''device'', ''backend'', ''config'', ''endpoint''] (ns_device_conf c') = Inr (oss_endpoint anchor)
        \<and> get_path [''device'', ''backend'', ''config'', ''access_key_id''] (ns_device_conf c') = Inr (oss_ak_id anchor)
        \<and> get_path [''device'', ''backend'', ''config'', ''access_key_secret''] (ns_device_conf c') = Inr (oss_ak_secret anchor)
        \<and> get_path [''device'', ''backend'', ''config'', ''bucket_name''] (ns_device_conf c') = Inr (oss_bucket anchor))
     \<and> (btype = BACKEND_PROXY \<longrightarrow>
          get_path [''device'', ''backend'', ''config'', ''host''] (ns_device_conf c') = Inr (backend_proxy_url anchor))
     \<and> (btype = LOCALFS \<longrightarrow>
          get_path [''device'', ''backend'', ''type''] (ns_device_conf c') = Inr (JStr ''localfs'')
        \<and> get_path [''device'', ''backend'', ''config'', ''dir''] (ns_device_conf c') = Inr (localfs_workdir anchor))"
proof -
  from get_path3_shape[OF assms(1)] obtain top l1 l2 where s:
    "ns_device_conf c = JObj top" "map_of top ''device'' = Some (JObj l1)"
    "map_of l1 ''backend'' = Some (JObj l2)" "map_of l2 ''config'' = Some (JObj cfg)" by blast
  show ?thesis
  proof (cases btype)
    case OSS
    with s assms(2,3) show ?thesis
      by (cases "kw_prefix kwargs") (simp_all add: set_rafs_backend_def conf_steps)
  next
    case REGISTRY
    with s assms(2,3) show ?thesis
      by (simp add: set_rafs_backend_def conf_steps)
  next
    case LOCALFS
    with s assms(2,3) show ?thesis
      by (simp add: set_rafs_backend_def conf_steps)
  next
    case BACKEND_PROXY
    with s assms(2,3) show ?thesis
      by (simp add: set_rafs_backend_def conf_steps)
  qed
qed

theorem set_rafs_backend_copies_unchecked_witness:
  "get_path [''device'', ''backend'', ''config''] (ns_device_conf (RafsConf_init ''direct'')) = Inr (JObj [])
   \<and> kw_repo no_kwargs = None \<and> kw_image no_kwargs = None
   \<and> set_rafs_backend unset_anchor REGISTRY no_kwargs (RafsConf_init ''direct'') =
     Inr ((RafsConf_init ''direct'')\<lparr>ns_device_conf :=
       JObj [(''device'', JObj [(''backend'', JObj [(''type'', JStr ''registry''),
                (''config'', JObj [(''scheme'', JStr ''http''), (''host'', JNull), (''auth'', JNull)])])]),
             (''mode'', JStr ''direct''), (''iostats_files'', JBool False),
             (''fs_prefetch'', JObj [(''enable'', JBool False)])]\<rparr>)"
  using set_rafs_backend_copies_unchecked[of "RafsConf_init ''direct''" "[]" no_kwargs unset_anchor REGISTRY]
  by (simp add: set_rafs_backend_def conf_steps RafsConf_init_def rafs_conf_default_def
      unset_anchor_def no_kwargs_def)

section \<open>Building an image\<close>

text \<open>The two assertions after the builder has exited, what a successful call has
  established, and where the \<^verbatim>\<open>created\<close> flag can come from.\<close>

lemma create_image_assert_fails:
  assumes "returncode run \<noteq> 0 \<or> posixpath_join (test_dir img) (bootstrap_name img) \<notin> files_after run"
  shows "create_image anchor clear uploader run (img, w) = Inl AssertionError"
  using assms
  by (auto simp: create_image_def create_image_steps_def exists_path_def)

lemma create_image_success:
  assumes "create_image anchor clear uploader run (img, w) = Inr (img', w')"
  shows "created img' \<and> returncode run = 0
       \<and> posixpath_join (test_dir img) (bootstrap_name img) \<in> files_after run
       \<and> last_blob (output_json run) = Inr (blob_id img')
       \<and> bootstrap_path img' = Some (posixpath_join (cwd w) (bootstrap_name img))"
  using assms
  by (auto simp: create_image_def create_image_steps_def exists_path_def abspath_def attr_def
      try_pass_def put_dustbin_def oss_upload_def shutil_copy_def
      split: if_splits sum.splits option.splits)

lemma create_image_created_flag:
  assumes "\<not> created img"
    and "created (fst (state_after (create_image_steps anchor clear uploader run) (img, w)))"
  shows "returncode run = 0 \<and> posixpath_join (test_dir img) (bootstrap_name img) \<in> files_after run"
  using assms
  by (auto simp: create_image_steps_def exists_path_def abspath_def attr_def
      try_pass_def put_dustbin_def oss_upload_def shutil_copy_def
      split: if_splits sum.splits option.splits)

text \<open>
  C8. \<^verbatim>\<open>create_image\<close> raises (an \<^verbatim>\<open>AssertionError\<close>) whenever the builder's exit
  status is not zero or the bootstrap file is absent when the builder has exited. On an
  image not yet created, the \<^verbatim>\<open>created\<close> flag is set, whether the call returns or raises
  later, only if both checks passed; a call that returns has set it.
\<close>

theorem create_image_build_checks:
  assumes "\<not> created img"
  shows "(returncode run \<noteq> 0 \<or> posixpath_join (test_dir img) (bootstrap_name img) \<notin> files_after run
            \<longrightarrow> create_image anchor clear uploader run (img, w) = Inl AssertionError)
       \<and> (created (fst (state_after (create_image_steps anchor clear uploader run) (img, w)))
            \<longrightarrow> returncode run = 0
               \<and> posixpath_join (test_dir img) (bootstrap_name img) \<in> files_after run)
       \<and> (\<forall>img' w'. create_image anchor clear uploader run (img, w) = Inr (img', w')
            \<longrightarrow> created img')"
  using create_image_assert_fails[of run img anchor clear uploader w]
    create_image_created_flag[OF assms, of anchor clear uploader run w]
    create_image_success[of anchor clear uploader run img w]
  by blast

theorem create_image_build_checks_witness:
  "\<not> created (RafsImage_init ''bs'' ''/w/blob'' True sample_world)
   \<and> returncode (sample_run\<lparr>returncode := 1\<rparr>) \<noteq> 0
   \<and> create_image (sample_anchor 5) True ''util'' (sample_run\<lparr>returncode := 1\<rparr>)
        (RafsImage_init ''bs'' ''/w/blob'' True sample_world, sample_world) = Inl AssertionError
   \<and> \<not> created (fst (state_after
          (create_image_steps (sample_anchor 5) True ''util'' (sample_run\<lparr>returncode := 1\<rparr>))
          (RafsImage_init ''bs'' ''/w/blob'' True sample_world, sample_world)))"
  using create_image_build_checks[of "RafsImage_init ''bs'' ''/w/blob'' True sample_world"
      "sample_run\<lparr>returncode := 1\<rparr>" "sample_anchor 5" True "''util''" sample_world]
  by (simp add: RafsImage_init_def sample_run_def)

text \<open>The blob identifier: assigned from the output document once the checks have
  passed; an output without a last blob makes the call raise.\<close>

lemma create_image_blob_assigned:
  assumes "uploader \<in> {''util'', ''builder'', ''none''}" and "returncode run = 0"
    and "posixpath_join (test_dir img) (bootstrap_name img) \<in> files_after run"
    and "last_blob (output_json run) = Inr b"
  shows "blob_id (fst (state_after (create_image_steps anchor clear uploader run) (img, w))) = b"
  using assms
  by (auto simp: create_image_steps_def exists_path_def abspath_def attr_def
      try_pass_def put_dustbin_def oss_upload_def shutil_copy_def
      split: if_splits sum.splits option.splits)

lemma create_image_blob_error:
  assumes "uploader \<in> {''util'', ''builder'', ''none''}" and "returncode run = 0"
    and "posixpath_join (test_dir img) (bootstrap_name img) \<in> files_after run"
    and "last_blob (output_json run) = Inl e"
  shows "create_image anchor clear uploader run (img, w) = Inl e"
  using assms
  by (auto simp: create_image_def create_image_steps_def exists_path_def)

lemma create_image_fails_without_blob:
  assumes "last_blob (output_json run) = Inl e"
  shows "\<exists>e'. create_image anchor clear uploader run (img, w) = Inl e'"
  using assms
  by (auto simp: create_image_def create_image_steps_def exists_path_def)

lemma last_blob_list:
  "last_blob (Some (JObj kvs)) = Inr b \<Longrightarrow> map_of kvs ''blobs'' = Some (JArr blobs) \<Longrightarrow>
     blobs \<noteq> [] \<and> b = last blobs"
  by (auto simp: last_blob_def split: if_splits)

lemma last_blob_malformed:
  "out = None \<or> (\<exists>doc. out = Some doc \<and> (\<forall>kvs. doc \<noteq> JObj kvs))
     \<or> (\<exists>kvs. out = Some (JObj kvs)
            \<and> (map_of kvs ''blobs'' = None
                \<or> (\<exists>v. map_of kvs ''blobs'' = Some v
                       \<and> (\<forall>x xs. v \<noteq> JArr (x # xs)) \<and> (\<forall>c cs. v \<noteq> JStr (c # cs)))))
   \<Longrightarrow> \<exists>e. last_blob out = Inl e \<and> e \<in> {JSONDecodeError, TypeError, KeyError, IndexError}"
proof (elim disjE exE conjE)
  assume "out = None"
  then show ?thesis by (simp add: last_blob_def)
next
  fix doc
  assume "out = Some doc" "\<forall>kvs. doc \<noteq> JObj kvs"
  then show ?thesis by (cases doc) (auto simp: last_blob_def)
next
  fix kvs
  assume "out = Some (JObj kvs)" "map_of kvs ''blobs'' = None"
  then show ?thesis by (simp add: last_blob_def)
next
  fix kvs v
  assume o: "out = Some (JObj kvs)" "map_of kvs ''blobs'' = Some v"
    and l: "\<forall>x xs. v \<noteq> JArr (x # xs)" and s: "\<forall>c cs. v \<noteq> JStr (c # cs)"
  show ?thesis
  proof (cases v)
    case (JArr xs)
    with l have "xs = []" by (cases xs) auto
    with o JArr show ?thesis by (simp add: last_blob_def)
  next
    case (JStr cs)
    with s have "cs = []" by (cases cs) auto
    with o JStr show ?thesis by (simp add: last_blob_def)
  qed (use o in \<open>simp_all add: last_blob_def\<close>)
qed

text \<open>
  C7, as the specification states it: the build fails when the builder's output is
  malformed. It does not for the document \<^verbatim>\<open>{"blobs": "b0"}\<close>, which has a string where
  the list of blobs should be: \<^verbatim>\<open>["blobs"][-1]\<close> indexes the string, \<^verbatim>\<open>create_image\<close>
  returns, and the image's \<^verbatim>\<open>blob_id\<close> is \<^verbatim>\<open>"0"\<close>.
\<close>

theorem create_image_string_blobs_counterexample:
  "create_image (sample_anchor 5) True ''util''
     (sample_run\<lparr>output_json := Some (JObj [(''blobs'', JStr ''b0'')])\<rparr>)
     (RafsImage_init ''bs'' ''/w/blob'' True sample_world, sample_world)
   = Inr ((RafsImage_init ''bs'' ''/w/blob'' True sample_world)
            \<lparr>blob_id := JStr ''0'', created := True, oss_uploader := Some ''util'',
             bootstrap_path := Some ''/t/bs''\<rparr>,
          sample_world\<lparr>files := {''/src/app'', ''/t/bs'', ''/w/blob''},
                       dustbin := [''bs'', ''/w/blob'']\<rparr>)"
  by (simp add: create_image_def create_image_steps_def sample_run_def sample_world_def
      RafsImage_init_def exists_path_def posixpath_join_def last_blob_def attr_def try_pass_def
      abspath_def put_dustbin_def)

text \<open>
  C7, amended. When \<^verbatim>\<open>create_image\<close> returns and the builder's output document is an
  object whose \<^verbatim>\<open>"blobs"\<close> member is a list, that list is not empty and the image's
  \<^verbatim>\<open>blob_id\<close> is its last element. When the output cannot be decoded, is not an object,
  has no \<^verbatim>\<open>"blobs"\<close> member, or has there anything but a non-empty list or a non-empty
  string (an empty list, for one), \<^verbatim>\<open>create_image\<close> raises; with the earlier checks
  passed the exception is the one of the decoding or indexing step.
\<close>

theorem create_image_blob_id:
  "(\<forall>img' w' kvs blobs.
        create_image anchor clear uploader run (img, w) = Inr (img', w')
        \<and> output_json run = Some (JObj kvs) \<and> map_of kvs ''blobs'' = Some (JArr blobs)
        \<longrightarrow> blobs \<noteq> [] \<and> blob_id img' = last blobs)
   \<and> (output_json run = None
        \<or> (\<exists>doc. output_json run = Some doc \<and> (\<forall>kvs. doc \<noteq> JObj kvs))
        \<or> (\<exists>kvs. output_json run = Some (JObj kvs)
              \<and> (map_of kvs ''blobs'' = None
                  \<or> (\<exists>v. map_of kvs ''blobs'' = Some v
                         \<and> (\<forall>x xs. v \<noteq> JArr (x # xs)) \<and> (\<forall>c cs. v \<noteq> JStr (c # cs)))))
        \<longrightarrow> (\<exists>e. create_image anchor clear uploader run (img, w) = Inl e
               \<and> (uploader \<in> {''util'', ''builder'', ''none''} \<and> returncode run = 0
                    \<and> posixpath_join (test_dir img) (bootstrap_name img) \<in> files_after run
                   \<longrightarrow> e \<in> {JSONDecodeError, TypeError, KeyError, IndexError})))"
proof (intro conjI allI impI)
  fix img' w' kvs blobs
  assume a: "create_image anchor clear uploader run (img, w) = Inr (img', w')
        \<and> output_json run = Some (JObj kvs) \<and> map_of kvs ''blobs'' = Some (JArr blobs)"
  with create_image_success[of anchor clear uploader run img w img' w']
  have "last_blob (Some (JObj kvs)) = Inr (blob_id img')" by simp
  from last_blob_list[OF this] a show "blobs \<noteq> []" and "blob_id img' = last blobs" by simp_all
next
  assume "output_json run = None
        \<or> (\<exists>doc. output_json run = Some doc \<and> (\<forall>kvs. doc \<noteq> JObj kvs))
        \<or> (\<exists>kvs. output_json run = Some (JObj kvs)
              \<and> (map_of kvs ''blobs'' = None
                  \<or> (\<exists>v. map_of kvs ''blobs'' = Some v
                         \<and> (\<forall>x xs. v \<noteq> JArr (x # xs)) \<and> (\<forall>c cs. v \<noteq> JStr (c # cs)))))"
  from last_blob_malformed[OF this] obtain e where
    e: "last_blob (output_json run) = Inl e"
    and m: "e \<in> {JSONDecodeError, TypeError, KeyError, IndexError}" by blast
  from create_image_fails_without_blob[OF e] obtain e' where
    e': "create_image anchor clear uploader run (img, w) = Inl e'" by blast
  from create_image_blob_error[OF _ _ _ e, of uploader img anchor clear w] e' m
  show "\<exists>e. create_image anchor clear uploader run (img, w) = Inl e
               \<and> (uploader \<in> {''util'', ''builder'', ''none''} \<and> returncode run = 0
                    \<and> posixpath_join (test_dir img) (bootstrap_name img) \<in> files_after run
                   \<longrightarrow> e \<in> {JSONDecodeError, TypeError, KeyError, IndexError})"
    by auto
qed

theorem create_image_blob_id_witness:
  "(case create_image (sample_anchor 5) True ''util'' sample_run
           (RafsImage_init ''bs'' ''/w/blob'' True sample_world, sample_world) of
      Inl e \<Rightarrow> False
    | Inr (img', w') \<Rightarrow> blob_id img' = JStr ''b1'')
   \<and> create_image (sample_anchor 5) True ''util'' (sample_run\<lparr>output_json := None\<rparr>)
        (RafsImage_init ''bs'' ''/w/blob'' True sample_world, sample_world) = Inl JSONDecodeError
   \<and> create_image (sample_anchor 5) True ''util''
        (sample_run\<lparr>output_json := Some (JObj [(''blobs'', JArr [])])\<rparr>)
        (RafsImage_init ''bs'' ''/w/blob'' True sample_world, sample_world) = Inl IndexError
   \<and> create_image (sample_anchor 5) True ''util''
        (sample_run\<lparr>output_json := Some (JObj [(''blobs'', JNull)])\<rparr>)
        (RafsImage_init ''bs'' ''/w/blob'' True sample_world, sample_world) = Inl TypeError"
proof -
  obtain img' w' where c: "create_image (sample_anchor 5) True ''util'' sample_run
           (RafsImage_init ''bs'' ''/w/blob'' True sample_world, sample_world) = Inr (img', w')"
    by (simp add: create_image_def create_image_steps_def sample_run_def sample_world_def
        RafsImage_init_def exists_path_def posixpath_join_def last_blob_def attr_def try_pass_def)
  from create_image_blob_id[of "sample_anchor 5" True "''util''" sample_run
      "RafsImage_init ''bs'' ''/w/blob'' True sample_world" sample_world] c
  have "blob_id img' = JStr ''b1''"
    by (simp add: sample_run_def)
  moreover have "create_image (sample_anchor 5) True ''util'' (sample_run\<lparr>output_json := None\<rparr>)
        (RafsImage_init ''bs'' ''/w/blob'' True sample_world, sample_world) = Inl JSONDecodeError"
    by (simp add: create_image_def create_image_steps_def sample_run_def sample_world_def
        RafsImage_init_def exists_path_def posixpath_join_def last_blob_def)
  moreover have "create_image (sample_anchor 5) True ''util''
        (sample_run\<lparr>output_json := Some (JObj [(''blobs'', JArr [])])\<rparr>)
        (RafsImage_init ''bs'' ''/w/blob'' True sample_world, sample_world) = Inl IndexError"
    by (simp add: create_image_def create_image_steps_def sample_run_def sample_world_def
        RafsImage_init_def exists_path_def posixpath_join_def last_blob_def)
  moreover have "create_image (sample_anchor 5) True ''util''
        (sample_run\<lparr>output_json := Some (JObj [(''blobs'', JNull)])\<rparr>)
        (RafsImage_init ''bs'' ''/w/blob'' True sample_world, sample_world) = Inl TypeError"
    by (simp add: create_image_def create_image_steps_def sample_run_def sample_world_def
        RafsImage_init_def exists_path_def posixpath_join_def last_blob_def)
  ultimately show ?thesis using c by simp
qed

section \<open>Cleaning up\<close>

lemma seq_shrinks: "\<forall>f \<in> set fs. shrinks f \<Longrightarrow> seq fs w = Inr w' \<Longrightarrow> files w' \<subseteq> files w"
proof (induction fs arbitrary: w)
  case Nil
  then show ?case by simp
next
  case (Cons f fs)
  from Cons.prems(2) obtain w1 where f: "f w = Inr w1" and r: "seq fs w1 = Inr w'"
    by (auto split: sum.splits)
  from Cons.prems(1) f have "files w1 \<subseteq> files w" by (simp add: shrinks_def)
  moreover from Cons.IH[OF _ r] Cons.prems(1) have "files w' \<subseteq> files w1" by simp
  ultimately show ?case by blast
qed

lemma unlink_shrinks: "shrinks (unlink path)"
  by (auto simp: shrinks_def unlink_def split: if_splits)

lemma try_pass_shrinks: "shrinks f \<Longrightarrow> shrinks (try_pass handled f)"
  by (auto simp: shrinks_def try_pass_def split: sum.splits if_splits)

lemma attr_shrinks: "(\<And>v. shrinks (f v)) \<Longrightarrow> shrinks (attr a f)"
  by (cases a) (auto simp: shrinks_def attr_def)

lemma parent_shrinks:
  "shrinks (\<lambda>w. case unlink pb w of
              Inl e \<Rightarrow> Inl e
            | Inr w' \<Rightarrow> try_pass handled (attr a unlink) w')"
proof -
  have t: "shrinks (try_pass handled (attr a unlink))"
    by (intro try_pass_shrinks attr_shrinks unlink_shrinks)
  show ?thesis
    unfolding shrinks_def
  proof (intro allI impI)
    fix w w'
    assume a: "(case unlink pb w of Inl e \<Rightarrow> Inl e
                | Inr w' \<Rightarrow> try_pass handled (attr a unlink) w') = Inr w'"
    then obtain w1 where u: "unlink pb w = Inr w1"
      and r: "try_pass handled (attr a unlink) w1 = Inr w'"
      by (auto split: sum.splits)
    from u unlink_shrinks have "files w1 \<subseteq> files w" by (simp add: shrinks_def)
    moreover from r t have "files w' \<subseteq> files w1" by (simp add: shrinks_def)
    ultimately show "files w' \<subseteq> files w" by blast
  qed
qed

lemma oss_step_shrinks:
  "shrinks (\<lambda>w. if b then attr a (\<lambda>h w. Inr (oss_rm bid w)) w else Inr w)"
  by (cases a) (auto simp: shrinks_def attr_def oss_rm_def)

lemma clean_up_removes_bootstrap:
  assumes "bootstrap_path img = Some bp" and "clean_up img w = Inr w1"
  shows "bp \<notin> files w1"
proof -
  let ?rest = "[
       (\<lambda>w. case oss_blob_abs_path img of None \<Rightarrow> Inr w | Some _ \<Rightarrow> unlink (blob_abs_path img) w),
       (\<lambda>w. case localfs_backing_blob img of
               None \<Rightarrow> Inr w
             | Some b \<Rightarrow> try_pass [FileNotFoundError] (unlink b) w),
       try_pass [FileNotFoundError, AttributeError] (unlink (blob_abs_path img)),
       try_pass [FileNotFoundError, AttributeError]
         (attr (parent_blob img) (\<lambda>pb w.
            case unlink pb w of
              Inl e \<Rightarrow> Inl e
            | Inr w' \<Rightarrow>
                try_pass [FileNotFoundError, AttributeError]
                  (attr (parent_bootstrap img) unlink) w')),
       try_pass [AttributeError]
         (\<lambda>w. if clear_from_oss img \<and> backend_type img = Some OSS
               then attr (oss_helper img) (\<lambda>h w. Inr (oss_rm (blob_id img) w)) w
               else Inr w)]"
  from assms obtain w0 where u: "unlink bp w = Inr w0" and r: "seq ?rest w0 = Inr w1"
    unfolding clean_up_def by (auto split: sum.splits)
  have s1: "shrinks (\<lambda>w. case oss_blob_abs_path img of None \<Rightarrow> Inr w
                          | Some _ \<Rightarrow> unlink (blob_abs_path img) w)"
    using unlink_shrinks[of "blob_abs_path img"]
    by (cases "oss_blob_abs_path img") (auto simp: shrinks_def)
  have s2: "shrinks (\<lambda>w. case localfs_backing_blob img of None \<Rightarrow> Inr w
                          | Some b \<Rightarrow> try_pass [FileNotFoundError] (unlink b) w)"
  proof (cases "localfs_backing_blob img")
    case None
    then show ?thesis by (simp add: shrinks_def)
  next
    case (Some b)
    with try_pass_shrinks[OF unlink_shrinks, of "[FileNotFoundError]" b] show ?thesis
      by (simp add: shrinks_def)
  qed
  have s3: "shrinks (try_pass [FileNotFoundError, AttributeError] (unlink (blob_abs_path img)))"
    by (intro try_pass_shrinks unlink_shrinks)
  have s4: "shrinks (try_pass [FileNotFoundError, AttributeError]
         (attr (parent_blob img) (\<lambda>pb w.
            case unlink pb w of
              Inl e \<Rightarrow> Inl e
            | Inr w' \<Rightarrow>
                try_pass [FileNotFoundError, AttributeError]
                  (attr (parent_bootstrap img) unlink) w')))"
    by (intro try_pass_shrinks attr_shrinks parent_shrinks)
  have s5: "shrinks (try_pass [AttributeError]
         (\<lambda>w. if clear_from_oss img \<and> backend_type img = Some OSS
               then attr (oss_helper img) (\<lambda>h w. Inr (oss_rm (blob_id img) w)) w
               else Inr w))"
    by (intro try_pass_shrinks oss_step_shrinks)
  from s1 s2 s3 s4 s5 have "\<forall>f \<in> set ?rest. shrinks f" by simp
  from seq_shrinks[OF this r] have "files w1 \<subseteq> files w0" .
  moreover from u have "bp \<notin> files w0" by (auto simp: unlink_def split: if_splits)
  ultimately show ?thesis by blast
qed

lemma clean_up_second_call_raises:
  assumes "bootstrap_path img = Some bp" and "clean_up img w = Inr w1"
  shows "clean_up img w1 = Inl FileNotFoundError"
  using clean_up_removes_bootstrap[OF assms] assms(1)
  by (simp add: clean_up_def unlink_def)

text \<open>
  C2. The specification has a second \<^verbatim>\<open>clean_up\<close> do nothing and raise nothing. On
  the image of a successful \<^verbatim>\<open>create_image\<close> the first \<^verbatim>\<open>clean_up\<close> succeeds and the
  second raises \<^verbatim>\<open>FileNotFoundError\<close>: \<^verbatim>\<open>os.unlink(self.bootstrap_path)\<close> stands outside
  the \<^verbatim>\<open>try\<close> blocks that guard the other removals.
\<close>

theorem clean_up_twice_raises:
  "(case create_image (sample_anchor 5) True ''util'' sample_run
            (RafsImage_init ''bs'' ''/w/blob'' True sample_world, sample_world) of
       Inl e \<Rightarrow> None
     | Inr (img, w) \<Rightarrow>
         (case clean_up img w of Inl e \<Rightarrow> None | Inr w1 \<Rightarrow> Some (clean_up img w1)))
   = Some (Inl FileNotFoundError)"
  by (simp add: create_image_def create_image_steps_def sample_run_def sample_world_def
        RafsImage_init_def exists_path_def posixpath_join_def last_blob_def attr_def try_pass_def
        abspath_def put_dustbin_def clean_up_def unlink_def)

section \<open>Waiting for the mount\<close>

text \<open>While the probe says no and the process runs, the loop goes on with \<open>elapsed\<close>
  one lower; it returns in the first iteration in which the probe says yes or the process
  has exited. It never leaves through its condition, and it does not return at all when
  neither happens.\<close>

lemma wait_loop_skip:
  "elapsed < 300 \<Longrightarrow> \<forall>j. k \<le> j \<and> j < k + n \<longrightarrow> \<not> test_fn j \<and> poll j = None \<Longrightarrow>
     wait_loop test_fn (Some poll) elapsed k = wait_loop test_fn (Some poll) (elapsed - int n) (k + n)"
proof (induction n arbitrary: elapsed k)
  case 0
  then show ?case by simp
next
  case (Suc n)
  from Suc.prems have here: "\<not> test_fn k" "poll k = None" by auto
  from Suc.prems have rest: "\<forall>j. Suc k \<le> j \<and> j < Suc k + n \<longrightarrow> \<not> test_fn j \<and> poll j = None"
    by auto
  from Suc.prems(1) have e: "elapsed - 1 < 300" by simp
  have "wait_loop test_fn (Some poll) elapsed k = wait_loop test_fn (Some poll) (elapsed - 1) (Suc k)"
    using Suc.prems(1) here by (subst wait_loop.simps) simp
  also have "\<dots> = wait_loop test_fn (Some poll) (elapsed - 1 - int n) (Suc k + n)"
    by (rule Suc.IH[OF e rest])
  finally show ?case by (simp add: algebra_simps)
qed

lemma wait_for_mount_first_true:
  assumes "\<forall>j < n. \<not> test_fn j \<and> poll j = None" and "test_fn n"
  shows "wait_for_mount test_fn (d\<lparr>p := Some poll\<rparr>) = Some (Inr n)"
proof -
  have "wait_loop test_fn (Some poll) 0 0 = wait_loop test_fn (Some poll) (0 - int n) (0 + n)"
    using assms(1) by (intro wait_loop_skip) auto
  also have "\<dots> = Some (Inr n)"
    using assms(2) by (subst wait_loop.simps) simp
  finally show ?thesis by (simp add: wait_for_mount_def)
qed

lemma wait_for_mount_process_exit:
  assumes "\<forall>j < n. \<not> test_fn j \<and> poll j = None" and "\<not> test_fn n" and "poll n = Some rc"
  shows "wait_for_mount test_fn (d\<lparr>p := Some poll\<rparr>)
           = Some (Inl (PytestFail ''file system process terminated prematurely''))"
proof -
  have "wait_loop test_fn (Some poll) 0 0 = wait_loop test_fn (Some poll) (0 - int n) (0 + n)"
    using assms(1) by (intro wait_loop_skip) auto
  also have "\<dots> = Some (Inl (PytestFail ''file system process terminated prematurely''))"
    using assms(2,3) by (subst wait_loop.simps) simp
  finally show ?thesis by (simp add: wait_for_mount_def)
qed

lemma wait_loop_never_returns:
  assumes "wait_loop test_fn proc elapsed k = Some y"
  shows "\<not> (elapsed < 300 \<and> (\<forall>j. \<not> test_fn j) \<and> (\<exists>poll. proc = Some poll \<and> (\<forall>j. poll j = None)))"
proof (rule wait_loop.raw_induct[where P = "\<lambda>t pr e k y.
        \<not> (e < 300 \<and> (\<forall>j. \<not> t j) \<and> (\<exists>poll. pr = Some poll \<and> (\<forall>j. poll j = None)))",
      OF _ assms])
  fix wl :: "(nat \<Rightarrow> bool) \<Rightarrow> process option \<Rightarrow> int \<Rightarrow> nat \<Rightarrow> (error + nat) option"
    and t pr e k y
  assume IH: "\<And>t pr e k y. wl t pr e k = Some y \<Longrightarrow>
        \<not> (e < 300 \<and> (\<forall>j. \<not> t j) \<and> (\<exists>poll. pr = Some poll \<and> (\<forall>j. poll j = None)))"
    and step: "(if e < 300 then
        (if t k then Some (Inr k)
         else (case pr of
                 None \<Rightarrow> Some (Inl AttributeError)
               | Some poll \<Rightarrow>
                   if poll k \<noteq> None
                   then Some (Inl (PytestFail ''file system process terminated prematurely''))
                   else wl t pr (e - 1) (Suc k)))
      else Some (Inl (PytestFail ''mountpoint failed to come up''))) = Some y"
  show "\<not> (e < 300 \<and> (\<forall>j. \<not> t j) \<and> (\<exists>poll. pr = Some poll \<and> (\<forall>j. poll j = None)))"
  proof
    assume a: "e < 300 \<and> (\<forall>j. \<not> t j) \<and> (\<exists>poll. pr = Some poll \<and> (\<forall>j. poll j = None))"
    then obtain poll where pr: "pr = Some poll" "\<forall>j. poll j = None" by blast
    from a pr step have "wl t pr (e - 1) (Suc k) = Some y" by simp
    from IH[OF this] a show False by simp
  qed
qed

lemma wait_for_mount_diverges:
  assumes "\<forall>j. \<not> test_fn j" and "\<forall>j. poll j = None"
  shows "wait_for_mount test_fn (d\<lparr>p := Some poll\<rparr>) = None"
proof (cases "wait_for_mount test_fn (d\<lparr>p := Some poll\<rparr>)")
  case None
  then show ?thesis .
next
  case (Some y)
  then have "wait_loop test_fn (Some poll) 0 0 = Some y" by (simp add: wait_for_mount_def)
  from wait_loop_never_returns[OF this] assms show ?thesis by simp
qed


lemma wait_loop_no_timeout:
  assumes "wait_loop test_fn proc elapsed k = Some y"
  shows "elapsed < 300 \<longrightarrow> y \<noteq> Inl (PytestFail ''mountpoint failed to come up'')"
proof (rule wait_loop.raw_induct[where P = "\<lambda>t pr e k y.
        e < 300 \<longrightarrow> y \<noteq> Inl (PytestFail ''mountpoint failed to come up'')", OF _ assms])
  fix wl :: "(nat \<Rightarrow> bool) \<Rightarrow> process option \<Rightarrow> int \<Rightarrow> nat \<Rightarrow> (error + nat) option"
    and t pr e k y
  assume IH: "\<And>t pr e k y. wl t pr e k = Some y \<Longrightarrow>
        e < 300 \<longrightarrow> y \<noteq> Inl (PytestFail ''mountpoint failed to come up'')"
    and step: "(if e < 300 then
        (if t k then Some (Inr k)
         else (case pr of
                 None \<Rightarrow> Some (Inl AttributeError)
               | Some poll \<Rightarrow>
                   if poll k \<noteq> None
                   then Some (Inl (PytestFail ''file system process terminated prematurely''))
                   else wl t pr (e - 1) (Suc k)))
      else Some (Inl (PytestFail ''mountpoint failed to come up''))) = Some y"
  show "e < 300 \<longrightarrow> y \<noteq> Inl (PytestFail ''mountpoint failed to come up'')"
  proof
    assume e: "e < 300"
    show "y \<noteq> Inl (PytestFail ''mountpoint failed to come up'')"
    proof (cases "t k")
      case True
      with e step show ?thesis by auto
    next
      case False
      show ?thesis
      proof (cases pr)
        case None
        with e False step show ?thesis by auto
      next
        case (Some poll)
        show ?thesis
        proof (cases "poll k")
          case None
          with e False Some step have "wl t pr (e - 1) (Suc k) = Some y" by simp
          from IH[OF this] e show ?thesis by simp
        next
          case (Some rc)
          with e False \<open>pr = Some poll\<close> step show ?thesis by auto
        qed
      qed
    qed
  qed
qed

lemma mount_waits:
  assumes "dump_config_step anchor dump_config d = Inr d1"
  shows "mount anchor None True dump_config ismount proc d =
           (case wait_for_mount ismount (d1\<lparr>p := Some proc\<rparr>) of
              None \<Rightarrow> None
            | Some (Inl e) \<Rightarrow> Some (Inl e)
            | Some (Inr k) \<Rightarrow> Some (Inr (d1\<lparr>p := Some proc\<rparr>)))"
  using assms by (simp add: mount_def Let_def)

text \<open>
  C4. If the daemon process has exited in some iteration of the wait, and the probe has
  not seen the mountpoint in that iteration or before, \<^verbatim>\<open>mount()\<close> fails with
  \<^verbatim>\<open>pytest.fail("file system process terminated prematurely")\<close> and not with the
  message of the timeout, in whichever iteration that is.
\<close>

theorem mount_process_terminated:
  assumes "dump_config_step anchor dump_config d = Inr d1"
    and "\<forall>j < n. \<not> ismount j \<and> proc j = None"
    and "\<not> ismount n" and "proc n = Some rc"
  shows "mount anchor None True dump_config ismount proc d
           = Some (Inl (PytestFail ''file system process terminated prematurely''))
       \<and> mount anchor None True dump_config ismount proc d
           \<noteq> Some (Inl (PytestFail ''mountpoint failed to come up''))"
  using wait_for_mount_process_exit[OF assms(2,3,4), of d1]
  by (simp add: mount_waits[OF assms(1)])

theorem mount_process_terminated_witness:
  "dump_config_step (sample_anchor 5) False sample_daemon = Inr sample_daemon
   \<and> \<not> never_mounted 0 \<and> exits_in_third 0 = None
   \<and> \<not> never_mounted 1 \<and> exits_in_third 1 = None
   \<and> \<not> never_mounted 2 \<and> exits_in_third 2 = Some 1
   \<and> mount (sample_anchor 5) None True False never_mounted exits_in_third sample_daemon
        = Some (Inl (PytestFail ''file system process terminated prematurely''))"
proof -
  have h: "\<forall>j < (2::nat). \<not> never_mounted j \<and> exits_in_third j = None"
    by (simp add: never_mounted_def exits_in_third_def)
  have a: "\<not> never_mounted 2" by (simp add: never_mounted_def)
  have b: "exits_in_third 2 = Some 1" by (simp add: exits_in_third_def)
  have d: "dump_config_step (sample_anchor 5) False sample_daemon = Inr sample_daemon"
    by (simp add: dump_config_step_def sample_daemon_def)
  have e: "exits_in_third 0 = None" "exits_in_third 1 = None"
    and m: "\<not> never_mounted 0" "\<not> never_mounted 1"
    by (simp_all add: never_mounted_def exits_in_third_def)
  from mount_process_terminated[OF d h a b] d a b e m show ?thesis
    by blast
qed

text \<open>The probe's first yes ends \<^verbatim>\<open>mount()\<close> with the daemon returned; a probe that
  never says yes on a process that never exits keeps it from returning.\<close>

lemma mount_first_true:
  assumes "dump_config_step anchor dump_config d = Inr d1"
    and "\<forall>j < n. \<not> ismount j \<and> proc j = None" and "ismount n"
  shows "mount anchor None True dump_config ismount proc d = Some (Inr (d1\<lparr>p := Some proc\<rparr>))"
  using wait_for_mount_first_true[OF assms(2,3), of d1]
  by (simp add: mount_waits[OF assms(1)])

lemma mount_never_times_out:
  assumes "dump_config_step anchor dump_config d = Inr d1"
    and "\<forall>j. \<not> ismount j" and "\<forall>j. proc j = None"
  shows "mount anchor None True dump_config ismount proc d = None"
  using wait_for_mount_diverges[OF assms(2,3), of d1]
  by (simp add: mount_waits[OF assms(1)])

text \<open>
  C1. The specification has \<^verbatim>\<open>mount()\<close> fail with a timeout after 300 units when the
  probe never answers true and the daemon stays alive. The source counts \<open>elapsed\<close>
  down (\<^verbatim>\<open>elapsed -= 1\<close>), so \<^verbatim>\<open>elapsed < 300\<close> holds forever: with such a probe and
  such a process \<^verbatim>\<open>mount()\<close> does not return.
\<close>

theorem mount_waits_forever:
  "mount (sample_anchor 5) None True True (\<lambda>k. False) (\<lambda>k. None) sample_daemon = None"
proof -
  have "dump_config_step (sample_anchor 5) True sample_daemon =
          Inr (sample_daemon\<lparr>conf := Some ((RafsConf_init ''direct'')
       \<lparr>conf_file_wrapper := \<lparr>content = json_dumps (rafs_conf_default ''direct''),
                               pos = length (json_dumps (rafs_conf_default ''direct''))\<rparr>,
        logged := [(''info'', ''Current rafs metadata mode *%s*'', [JStr ''direct''])]\<rparr>)\<rparr>)"
    by (simp add: dump_config_step_def sample_daemon_def dump_not_v6 sample_anchor_def
        RafsConf_init_def)
  from mount_never_times_out[OF this, of "\<lambda>k. False" "\<lambda>k. None"] show ?thesis by simp
qed

end
